theory Spec2Isabelle
  imports Main "HOL-Library.Sublist"
begin

section \<open>Python values, dictionaries and exceptions\<close>

text \<open>
  The server receives JSON and hands it on untyped, so every argument is a Python value
  as \<open>json.loads\<close> produces it. Floats are left out: no branch of the program
  computes with one. A \<open>dict\<close> keeps its insertion order, as Python's does.
\<close>

datatype pyval =
    PNone
  | PBool bool
  | PInt int
  | PStr string
  | PList "pyval list"
  | PDict "(string \<times> pyval) list"

type_synonym pydict = "(string \<times> pyval) list"

datatype exn =
    KeyError string
  | TypeError string
  | ValueError string
  | LibraryError string

text \<open>
  \<open>str(e)\<close>: a \<open>KeyError\<close> prints the \<open>repr\<close> of its key (every key the program
  looks up is a literal of letters and underscores, whose \<open>repr\<close> is the key in single
  quotes); the other exceptions print their message. \<open>LibraryError\<close> stands for whatever
  subclass of \<open>Exception\<close> httpx or json raises, with its message. Every \<open>exn\<close> is an
  \<open>Exception\<close>, which \<open>except Exception\<close> catches; what is not (a cancellation, the
  interpreter's exit) is outside this model.
\<close>

definition squote :: "string \<Rightarrow> string" where
  "squote s = [CHR 0x27] @ s @ [CHR 0x27]"

fun str_exn :: "exn \<Rightarrow> string" where
  "str_exn (KeyError k) = squote k"
| "str_exn (TypeError m) = m"
| "str_exn (ValueError m) = m"
| "str_exn (LibraryError m) = m"

text \<open>Truth value of an object, as \<open>if x:\<close> and \<open>not x\<close> test it.\<close>

fun truthy :: "pyval \<Rightarrow> bool" where
  "truthy PNone = False"
| "truthy (PBool b) = b"
| "truthy (PInt n) = (n \<noteq> 0)"
| "truthy (PStr s) = (s \<noteq> [])"
| "truthy (PList xs) = (xs \<noteq> [])"
| "truthy (PDict kvs) = (kvs \<noteq> [])"

text \<open>\<open>for cid in v\<close>: a list yields its items, a string its characters, a dict its keys.\<close>

fun py_iter :: "pyval \<Rightarrow> exn + pyval list" where
  "py_iter (PList xs) = Inr xs"
| "py_iter (PStr s) = Inr (map (\<lambda>c. PStr [c]) s)"
| "py_iter (PDict kvs) = Inr (map (\<lambda>kv. PStr (fst kv)) kvs)"
| "py_iter PNone = Inl (TypeError (squote ''NoneType'' @ '' object is not iterable''))"
| "py_iter (PBool b) = Inl (TypeError (squote ''bool'' @ '' object is not iterable''))"
| "py_iter (PInt n) = Inl (TypeError (squote ''int'' @ '' object is not iterable''))"

text \<open>\<open>d.get(k, default)\<close>, \<open>d[k]\<close> and \<open>d.pop(k)\<close>.\<close>

definition dict_get :: "pydict \<Rightarrow> string \<Rightarrow> pyval \<Rightarrow> pyval" where
  "dict_get d k dflt = (case map_of d k of None \<Rightarrow> dflt | Some v \<Rightarrow> v)"

definition dict_getitem :: "pydict \<Rightarrow> string \<Rightarrow> exn + pyval" where
  "dict_getitem d k = (case map_of d k of None \<Rightarrow> Inl (KeyError k) | Some v \<Rightarrow> Inr v)"

definition dict_pop :: "pydict \<Rightarrow> string \<Rightarrow> exn + (pyval \<times> pydict)" where
  "dict_pop d k =
     (case map_of d k of
        None \<Rightarrow> Inl (KeyError k)
      | Some v \<Rightarrow> Inr (v, filter (\<lambda>kv. fst kv \<noteq> k) d))"

definition keys :: "pydict \<Rightarrow> string list" where
  "keys d = map fst d"

text \<open>A parameter with a default: \<open>None\<close> when the caller leaves it out.\<close>

definition arg_or :: "pyval \<Rightarrow> pyval option \<Rightarrow> pyval" where
  "arg_or dflt a = (case a of None \<Rightarrow> dflt | Some v \<Rightarrow> v)"

section \<open>The runtime around the program\<close>

text \<open>
  What the program calls but does not contain is a parameter: the process environment,
  the constructor \<open>httpx.AsyncClient(base_url=..., headers=..., timeout=30.0)\<close> (it
  answers with the exception it raises, if any: httpx encodes a header value as ASCII
  and raises \<open>UnicodeEncodeError\<close> for a value it cannot encode), the HTTP stack
  (\<open>AsyncClient.request\<close>, \<open>raise_for_status\<close> and \<open>response.json\<close> together: it
  answers a request with the decoded body or with the exception one of the three raised,
  and moves the remote world on), the clock, \<open>json.dumps(_, indent=2)\<close>, and the text an
  f-string gives a value that is not a string.
\<close>

record request =
  "method" :: string
  path :: string
  params :: "pydict option"
  json :: "pyval option"

record 'w runtime =
  environ :: "string \<Rightarrow> string option"
  async_client :: "string \<Rightarrow> (string \<times> string) list \<Rightarrow> exn option"
  http :: "string \<Rightarrow> string \<Rightarrow> request \<Rightarrow> 'w \<Rightarrow> (exn + pyval) \<times> 'w"
  utcnow_isoformat :: "'w \<Rightarrow> string"
  json_dumps :: "pyval \<Rightarrow> exn + string"
  format_other :: "pyval \<Rightarrow> string"

definition fstr :: "'w runtime \<Rightarrow> pyval \<Rightarrow> string" where
  "fstr rt v = (case v of PStr s \<Rightarrow> s | _ \<Rightarrow> format_other rt v)"

section \<open>client.py\<close>

record DexClient =
  api_key :: string

definition BASE_URL :: string where
  "BASE_URL = ''https://api.getdex.com/api/rest''"

text \<open>
  \<open>DexClient.__init__\<close>: the key is kept, and the HTTP client is built with the base
  URL and the two headers. What that constructor raises leaves \<open>__init__\<close>, and no
  client is made.
\<close>

definition DexClient_init :: "'w runtime \<Rightarrow> string \<Rightarrow> exn + DexClient" where
  "DexClient_init rt key =
     (case async_client rt BASE_URL
             [(''Content-Type'', ''application/json''), (''x-hasura-dex-api-key'', key)] of
        Some e \<Rightarrow> Inl e
      | None \<Rightarrow> Inr \<lparr>api_key = key\<rparr>)"

text \<open>
  The state: the module's \<open>_client\<close>, the requests handed to the HTTP stack so far
  (oldest first), and the remote world.
\<close>

record 'w state =
  global_client :: "DexClient option"
  sent :: "request list"
  world :: 'w

type_synonym 'w call = "'w state \<Rightarrow> (exn + pyval) \<times> 'w state"

text \<open>\<open>DexClient._request\<close>\<close>

definition private_request ::
  "'w runtime \<Rightarrow> DexClient \<Rightarrow> string \<Rightarrow> string \<Rightarrow> pydict option \<Rightarrow> pyval option \<Rightarrow> 'w call" where
  "private_request rt self m p ps j s =
     (let rq = \<lparr>method = m, path = p, params = ps, json = j\<rparr>;
          (r, w) = http rt BASE_URL (api_key self) rq (world s)
      in (r, s\<lparr>sent := sent s @ [rq], world := w\<rparr>))"

subsection \<open>Contacts\<close>

definition list_contacts ::
  "'w runtime \<Rightarrow> DexClient \<Rightarrow> pyval option \<Rightarrow> pyval option \<Rightarrow> 'w call" where
  "list_contacts rt self limit offset s =
     private_request rt self ''GET'' ''/contacts''
       (Some [(''limit'', arg_or (PInt 10) limit), (''offset'', arg_or (PInt 0) offset)]) None s"

definition get_contact :: "'w runtime \<Rightarrow> DexClient \<Rightarrow> pyval \<Rightarrow> 'w call" where
  "get_contact rt self contact_id s =
     private_request rt self ''GET'' (''/contacts/'' @ fstr rt contact_id) None None s"

definition search_contacts_by_email :: "'w runtime \<Rightarrow> DexClient \<Rightarrow> pyval \<Rightarrow> 'w call" where
  "search_contacts_by_email rt self email s =
     private_request rt self ''GET'' ''/search/contacts'' (Some [(''email'', email)]) None s"

definition create_contact ::
  "'w runtime \<Rightarrow> DexClient \<Rightarrow> pyval \<Rightarrow> pyval \<Rightarrow> pyval option \<Rightarrow> pyval option \<Rightarrow> pyval option \<Rightarrow>
   pyval option \<Rightarrow> pyval option \<Rightarrow> pyval option \<Rightarrow> pyval option \<Rightarrow> pyval option \<Rightarrow>
   pyval option \<Rightarrow> 'w call" where
  "create_contact rt self first_name last_name email phone phone_label job_title description
     linkedin twitter instagram website s =
     (let email = arg_or PNone email;
          phone = arg_or PNone phone;
          phone_label = arg_or (PStr ''Work'') phone_label;
          contact_data =
            [(''first_name'', first_name),
             (''last_name'', last_name),
             (''job_title'', arg_or PNone job_title),
             (''description'', arg_or PNone description),
             (''linkedin'', arg_or PNone linkedin),
             (''twitter'', arg_or PNone twitter),
             (''instagram'', arg_or PNone instagram),
             (''website'', arg_or PNone website)];
          contact_data =
            (if truthy email
             then contact_data @ [(''contact_emails'', PDict [(''data'', PDict [(''email'', email)])])]
             else contact_data);
          contact_data =
            (if truthy phone
             then contact_data @
               [(''contact_phone_numbers'',
                 PDict [(''data'', PDict [(''phone_number'', phone), (''label'', phone_label)])])]
             else contact_data)
      in private_request rt self ''POST'' ''/contacts'' None
           (Some (PDict [(''contact'', PDict contact_data)])) s)"

text \<open>\<open>update_contact(self, contact_id, **fields)\<close>, with \<open>kwargs\<close> for \<open>fields\<close>.\<close>

definition update_contact :: "'w runtime \<Rightarrow> DexClient \<Rightarrow> pyval \<Rightarrow> pydict \<Rightarrow> 'w call" where
  "update_contact rt self contact_id kwargs s =
     private_request rt self ''PUT'' (''/contacts/'' @ fstr rt contact_id) None
       (Some (PDict [(''contact'', PDict kwargs)])) s"

definition delete_contact :: "'w runtime \<Rightarrow> DexClient \<Rightarrow> pyval \<Rightarrow> 'w call" where
  "delete_contact rt self contact_id s =
     private_request rt self ''DELETE'' (''/contacts/'' @ fstr rt contact_id) None None s"

subsection \<open>Notes (timeline items)\<close>

definition list_notes ::
  "'w runtime \<Rightarrow> DexClient \<Rightarrow> pyval option \<Rightarrow> pyval option \<Rightarrow> 'w call" where
  "list_notes rt self limit offset s =
     private_request rt self ''GET'' ''/timeline_items''
       (Some [(''limit'', arg_or (PInt 10) limit), (''offset'', arg_or (PInt 0) offset)]) None s"

definition get_notes_for_contact :: "'w runtime \<Rightarrow> DexClient \<Rightarrow> pyval \<Rightarrow> 'w call" where
  "get_notes_for_contact rt self contact_id s =
     private_request rt self ''GET'' (''/timeline_items/contacts/'' @ fstr rt contact_id)
       None None s"

definition contact_entries :: "pyval list \<Rightarrow> pyval" where
  "contact_entries cids = PList (map (\<lambda>cid. PDict [(''contact_id'', cid)]) cids)"

definition create_note ::
  "'w runtime \<Rightarrow> DexClient \<Rightarrow> pyval \<Rightarrow> pyval \<Rightarrow> pyval option \<Rightarrow> 'w call" where
  "create_note rt self note contact_ids event_time s =
     (let event_time = arg_or PNone event_time;
          event_time =
            (if event_time = PNone then PStr (utcnow_isoformat rt (world s)) else event_time)
      in case py_iter contact_ids of
           Inl e \<Rightarrow> (Inl e, s)
         | Inr cids \<Rightarrow>
             private_request rt self ''POST'' ''/timeline_items'' None
               (Some (PDict [(''timeline_event'',
                  PDict [(''note'', note),
                         (''event_time'', event_time),
                         (''meeting_type'', PStr ''note''),
                         (''timeline_items_contacts'',
                            PDict [(''data'', contact_entries cids)])])])) s)"

definition update_note :: "'w runtime \<Rightarrow> DexClient \<Rightarrow> pyval \<Rightarrow> pyval \<Rightarrow> 'w call" where
  "update_note rt self note_id note s =
     private_request rt self ''PUT'' (''/timeline_items/'' @ fstr rt note_id) None
       (Some (PDict [(''timeline_event'', PDict [(''note'', note)])])) s"

definition delete_note :: "'w runtime \<Rightarrow> DexClient \<Rightarrow> pyval \<Rightarrow> 'w call" where
  "delete_note rt self note_id s =
     private_request rt self ''DELETE'' (''/timeline_items/'' @ fstr rt note_id) None None s"

subsection \<open>Reminders\<close>

definition list_reminders ::
  "'w runtime \<Rightarrow> DexClient \<Rightarrow> pyval option \<Rightarrow> pyval option \<Rightarrow> 'w call" where
  "list_reminders rt self limit offset s =
     private_request rt self ''GET'' ''/reminders''
       (Some [(''limit'', arg_or (PInt 10) limit), (''offset'', arg_or (PInt 0) offset)]) None s"

definition create_reminder ::
  "'w runtime \<Rightarrow> DexClient \<Rightarrow> pyval \<Rightarrow> pyval \<Rightarrow> pyval option \<Rightarrow> pyval option \<Rightarrow>
   pyval option \<Rightarrow> 'w call" where
  "create_reminder rt self title due_date contact_ids text is_complete s =
     (let contact_ids = arg_or PNone contact_ids;
          reminder_data =
            [(''title'', title),
             (''text'', arg_or PNone text),
             (''is_complete'', arg_or (PBool False) is_complete),
             (''due_at_date'', due_date)]
      in if truthy contact_ids then
           (case py_iter contact_ids of
              Inl e \<Rightarrow> (Inl e, s)
            | Inr cids \<Rightarrow>
                private_request rt self ''POST'' ''/reminders'' None
                  (Some (PDict [(''reminder'',
                     PDict (reminder_data @
                       [(''reminders_contacts'', PDict [(''data'', contact_entries cids)])]))])) s)
         else private_request rt self ''POST'' ''/reminders'' None
                (Some (PDict [(''reminder'', PDict reminder_data)])) s)"

definition update_reminder ::
  "'w runtime \<Rightarrow> DexClient \<Rightarrow> pyval \<Rightarrow> pyval option \<Rightarrow> pyval option \<Rightarrow> pyval option \<Rightarrow>
   pyval option \<Rightarrow> 'w call" where
  "update_reminder rt self reminder_id title text due_date is_complete s =
     (let title = arg_or PNone title;
          text = arg_or PNone text;
          due_date = arg_or PNone due_date;
          is_complete = arg_or PNone is_complete;
          reminder_data = [];
          reminder_data =
            (if title \<noteq> PNone then reminder_data @ [(''title'', title)] else reminder_data);
          reminder_data =
            (if text \<noteq> PNone then reminder_data @ [(''text'', text)] else reminder_data);
          reminder_data =
            (if due_date \<noteq> PNone then reminder_data @ [(''due_at_date'', due_date)]
             else reminder_data);
          reminder_data =
            (if is_complete \<noteq> PNone then reminder_data @ [(''is_complete'', is_complete)]
             else reminder_data)
      in private_request rt self ''PUT'' (''/reminders/'' @ fstr rt reminder_id) None
           (Some (PDict [(''reminder'', PDict reminder_data)])) s)"

definition delete_reminder :: "'w runtime \<Rightarrow> DexClient \<Rightarrow> pyval \<Rightarrow> 'w call" where
  "delete_reminder rt self reminder_id s =
     private_request rt self ''DELETE'' (''/reminders/'' @ fstr rt reminder_id) None None s"

definition complete_reminder :: "'w runtime \<Rightarrow> DexClient \<Rightarrow> pyval \<Rightarrow> 'w call" where
  "complete_reminder rt self reminder_id s =
     update_reminder rt self reminder_id None None None (Some (PBool True)) s"

section \<open>server.py\<close>

definition missing_key_message :: string where
  "missing_key_message =
     ''DEX_API_KEY environment variable is required. '' @
     ''Get your API key from https://getdex.com/appv3/settings/api''"

text \<open>
  \<open>get_client\<close>: the client is made on first use, and kept. Where \<open>DexClient(api_key)\<close>
  raises, \<open>_client\<close> stays \<open>None\<close> and the exception leaves \<open>get_client\<close>.
\<close>

definition get_client :: "'w runtime \<Rightarrow> 'w state \<Rightarrow> exn + (DexClient \<times> 'w state)" where
  "get_client rt s =
     (case global_client s of
        Some c \<Rightarrow> Inr (c, s)
      | None \<Rightarrow>
          (case environ rt ''DEX_API_KEY'' of
             None \<Rightarrow> Inl (ValueError missing_key_message)
           | Some k \<Rightarrow>
               if k = [] then Inl (ValueError missing_key_message)
               else
                 (case DexClient_init rt k of
                    Inl e \<Rightarrow> Inl e
                  | Inr c \<Rightarrow> Inr (c, s\<lparr>global_client := Some c\<rparr>))))"

record TextContent =
  type :: string
  "text" :: string

text \<open>\<open>f(arguments[k])\<close>: the lookup raises before the call is made.\<close>

definition item :: "pydict \<Rightarrow> string \<Rightarrow> (pyval \<Rightarrow> 'w call) \<Rightarrow> 'w call" where
  "item arguments k f s =
     (case dict_getitem arguments k of Inl e \<Rightarrow> (Inl e, s) | Inr v \<Rightarrow> f v s)"

text \<open>
  The \<open>if\<close>/\<open>elif\<close> chain of \<open>call_tool\<close>: what \<open>result = await client...\<close> gives for
  a known name (a value or the exception raised on the way), and \<open>None\<close> where the chain
  ends in its \<open>else\<close>. In \<open>client.update_contact(contact_id, **arguments)\<close> the
  arguments left after the \<open>pop\<close> become keywords: one called \<open>self\<close> collides with
  the bound method's first parameter, and the call raises before the method runs.
\<close>

definition tool_result ::
  "'w runtime \<Rightarrow> DexClient \<Rightarrow> string \<Rightarrow> pydict \<Rightarrow> 'w state \<Rightarrow> ((exn + pyval) \<times> 'w state) option" where
  "tool_result rt client name arguments s =
     (if name = ''dex_list_contacts'' then
        Some (list_contacts rt client
                (Some (dict_get arguments ''limit'' (PInt 10)))
                (Some (dict_get arguments ''offset'' (PInt 0))) s)
      else if name = ''dex_get_contact'' then
        Some (item arguments ''contact_id'' (get_contact rt client) s)
      else if name = ''dex_search_contacts'' then
        Some (item arguments ''email'' (search_contacts_by_email rt client) s)
      else if name = ''dex_create_contact'' then
        Some (item arguments ''first_name'' (\<lambda>first_name.
              item arguments ''last_name'' (\<lambda>last_name.
                create_contact rt client first_name last_name
                  (Some (dict_get arguments ''email'' PNone))
                  (Some (dict_get arguments ''phone'' PNone))
                  (Some (dict_get arguments ''phone_label'' (PStr ''Work'')))
                  (Some (dict_get arguments ''job_title'' PNone))
                  (Some (dict_get arguments ''description'' PNone))
                  (Some (dict_get arguments ''linkedin'' PNone))
                  (Some (dict_get arguments ''twitter'' PNone))
                  (Some (dict_get arguments ''instagram'' PNone))
                  (Some (dict_get arguments ''website'' PNone)))) s)
      else if name = ''dex_update_contact'' then
        Some (case dict_pop arguments ''contact_id'' of
                Inl e \<Rightarrow> (Inl e, s)
              | Inr (contact_id, arguments) \<Rightarrow>
                  if ''self'' \<in> set (keys arguments) then
                    (Inl (TypeError
                       (''DexClient.update_contact() got multiple values for argument '' @
                        squote ''self'')), s)
                  else update_contact rt client contact_id arguments s)
      else if name = ''dex_delete_contact'' then
        Some (item arguments ''contact_id'' (delete_contact rt client) s)
      else if name = ''dex_list_notes'' then
        Some (list_notes rt client
                (Some (dict_get arguments ''limit'' (PInt 10)))
                (Some (dict_get arguments ''offset'' (PInt 0))) s)
      else if name = ''dex_get_notes_for_contact'' then
        Some (item arguments ''contact_id'' (get_notes_for_contact rt client) s)
      else if name = ''dex_create_note'' then
        Some (item arguments ''note'' (\<lambda>note.
              item arguments ''contact_ids'' (\<lambda>contact_ids.
                create_note rt client note contact_ids
                  (Some (dict_get arguments ''event_time'' PNone)))) s)
      else if name = ''dex_update_note'' then
        Some (item arguments ''note_id'' (\<lambda>note_id.
              item arguments ''note'' (\<lambda>note.
                update_note rt client note_id note)) s)
      else if name = ''dex_delete_note'' then
        Some (item arguments ''note_id'' (delete_note rt client) s)
      else if name = ''dex_list_reminders'' then
        Some (list_reminders rt client
                (Some (dict_get arguments ''limit'' (PInt 10)))
                (Some (dict_get arguments ''offset'' (PInt 0))) s)
      else if name = ''dex_create_reminder'' then
        Some (item arguments ''title'' (\<lambda>title.
              item arguments ''due_date'' (\<lambda>due_date.
                create_reminder rt client title due_date
                  (Some (dict_get arguments ''contact_ids'' PNone))
                  (Some (dict_get arguments ''text'' PNone))
                  None)) s)
      else if name = ''dex_update_reminder'' then
        Some (item arguments ''reminder_id'' (\<lambda>reminder_id.
                update_reminder rt client reminder_id
                  (Some (dict_get arguments ''title'' PNone))
                  (Some (dict_get arguments ''text'' PNone))
                  (Some (dict_get arguments ''due_date'' PNone))
                  (Some (dict_get arguments ''is_complete'' PNone))) s)
      else if name = ''dex_complete_reminder'' then
        Some (item arguments ''reminder_id'' (complete_reminder rt client) s)
      else if name = ''dex_delete_reminder'' then
        Some (item arguments ''reminder_id'' (delete_reminder rt client) s)
      else None)"

text \<open>
  The \<open>try\<close> block of \<open>call_tool\<close>: the chain, then either the early return of the
  \<open>else\<close> branch or \<open>json.dumps(result, indent=2)\<close>.
\<close>

definition call_tool_try ::
  "'w runtime \<Rightarrow> DexClient \<Rightarrow> string \<Rightarrow> pydict \<Rightarrow> 'w state \<Rightarrow> (exn + TextContent list) \<times> 'w state" where
  "call_tool_try rt client name arguments s =
     (case tool_result rt client name arguments s of
        None \<Rightarrow> (Inr [\<lparr>type = ''text'', text = ''Unknown tool: '' @ name\<rparr>], s)
      | Some (Inl e, s') \<Rightarrow> (Inl e, s')
      | Some (Inr result, s') \<Rightarrow>
          (case json_dumps rt result of
             Inl e \<Rightarrow> (Inl e, s')
           | Inr dumped \<Rightarrow> (Inr [\<lparr>type = ''text'', text = dumped\<rparr>], s')))"

text \<open>
  \<open>call_tool\<close>: \<open>get_client()\<close> stands before the \<open>try\<close>, so what it raises leaves the
  function (\<open>Inl\<close>); what the \<open>try\<close> block raises becomes a text.
\<close>

definition call_tool ::
  "'w runtime \<Rightarrow> string \<Rightarrow> pydict \<Rightarrow> 'w state \<Rightarrow> (exn + TextContent list) \<times> 'w state" where
  "call_tool rt name arguments s =
     (case get_client rt s of
        Inl e \<Rightarrow> (Inl e, s)
      | Inr (client, s0) \<Rightarrow>
          (case call_tool_try rt client name arguments s0 of
             (Inl e, s') \<Rightarrow> (Inr [\<lparr>type = ''text'', text = ''Error: '' @ str_exn e\<rparr>], s')
           | (Inr out, s') \<Rightarrow> (Inr out, s')))"

subsection \<open>The catalog\<close>

text \<open>
  \<open>list_tools\<close>, entry by entry. It stands after \<open>call_tool\<close> in this theory so that
  the fields \<open>name\<close> and \<open>description\<close> of a \<open>Tool\<close> leave the parameters of the
  functions above their names. Each \<open>inputSchema\<close> is the dict of the source.
\<close>

record Tool =
  name :: string
  description :: string
  inputSchema :: pyval

definition dex_list_contacts_tool :: Tool where
  "dex_list_contacts_tool =
     \<lparr>name = ''dex_list_contacts'',
      description =
        ''List all contacts from Dex CRM with pagination. Returns contact details including name, email, phone, job title, and social profiles.'',
      inputSchema =
        PDict
          [(''type'', PStr ''object''),
           (''properties'', PDict
             [(''limit'', PDict
                [(''type'', PStr ''integer''),
                 (''description'', PStr ''Maximum number of contacts to return (default: 10, max: 100)''),
                 (''default'', PInt 10)]),
              (''offset'', PDict
                [(''type'', PStr ''integer''),
                 (''description'', PStr ''Number of contacts to skip for pagination (default: 0)''),
                 (''default'', PInt 0)])])]\<rparr>"

definition dex_get_contact_tool :: Tool where
  "dex_get_contact_tool =
     \<lparr>name = ''dex_get_contact'',
      description =
        ''Get detailed information about a specific contact by their ID.'',
      inputSchema =
        PDict
          [(''type'', PStr ''object''),
           (''properties'', PDict
             [(''contact_id'', PDict
                [(''type'', PStr ''string''),
                 (''description'', PStr ''The UUID of the contact to retrieve'')])]),
           (''required'', PList [PStr ''contact_id''])]\<rparr>"

definition dex_search_contacts_tool :: Tool where
  "dex_search_contacts_tool =
     \<lparr>name = ''dex_search_contacts'',
      description =
        ''Search for contacts by email address.'',
      inputSchema =
        PDict
          [(''type'', PStr ''object''),
           (''properties'', PDict
             [(''email'', PDict
                [(''type'', PStr ''string''),
                 (''description'', PStr ''Email address to search for'')])]),
           (''required'', PList [PStr ''email''])]\<rparr>"

definition dex_create_contact_tool :: Tool where
  "dex_create_contact_tool =
     \<lparr>name = ''dex_create_contact'',
      description =
        ''Create a new contact in Dex CRM.'',
      inputSchema =
        PDict
          [(''type'', PStr ''object''),
           (''properties'', PDict
             [(''first_name'', PDict
                [(''type'', PStr ''string''),
                 (''description'', PStr ''Contact's first name'')]),
              (''last_name'', PDict
                [(''type'', PStr ''string''),
                 (''description'', PStr ''Contact's last name'')]),
              (''email'', PDict
                [(''type'', PStr ''string''),
                 (''description'', PStr ''Contact's email address'')]),
              (''phone'', PDict
                [(''type'', PStr ''string''),
                 (''description'', PStr ''Contact's phone number'')]),
              (''phone_label'', PDict
                [(''type'', PStr ''string''),
                 (''description'', PStr ''Label for phone number (e.g., 'Work', 'Mobile')''),
                 (''default'', PStr ''Work'')]),
              (''job_title'', PDict
                [(''type'', PStr ''string''),
                 (''description'', PStr ''Contact's job title'')]),
              (''description'', PDict
                [(''type'', PStr ''string''),
                 (''description'', PStr ''Notes about the contact'')]),
              (''linkedin'', PDict
                [(''type'', PStr ''string''),
                 (''description'', PStr ''LinkedIn username'')]),
              (''twitter'', PDict
                [(''type'', PStr ''string''),
                 (''description'', PStr ''Twitter handle'')]),
              (''instagram'', PDict
                [(''type'', PStr ''string''),
                 (''description'', PStr ''Instagram username'')]),
              (''website'', PDict
                [(''type'', PStr ''string''),
                 (''description'', PStr ''Personal website URL'')])]),
           (''required'', PList [PStr ''first_name'', PStr ''last_name''])]\<rparr>"

definition dex_update_contact_tool :: Tool where
  "dex_update_contact_tool =
     \<lparr>name = ''dex_update_contact'',
      description =
        ''Update an existing contact's information.'',
      inputSchema =
        PDict
          [(''type'', PStr ''object''),
           (''properties'', PDict
             [(''contact_id'', PDict
                [(''type'', PStr ''string''),
                 (''description'', PStr ''The UUID of the contact to update'')]),
              (''first_name'', PDict
                [(''type'', PStr ''string''),
                 (''description'', PStr ''New first name'')]),
              (''last_name'', PDict [(''type'', PStr ''string''), (''description'', PStr ''New last name'')]),
              (''job_title'', PDict [(''type'', PStr ''string''), (''description'', PStr ''New job title'')]),
              (''description'', PDict
                [(''type'', PStr ''string''),
                 (''description'', PStr ''New description/notes'')]),
              (''linkedin'', PDict
                [(''type'', PStr ''string''),
                 (''description'', PStr ''New LinkedIn username'')]),
              (''twitter'', PDict
                [(''type'', PStr ''string''),
                 (''description'', PStr ''New Twitter handle'')]),
              (''instagram'', PDict
                [(''type'', PStr ''string''),
                 (''description'', PStr ''New Instagram username'')]),
              (''website'', PDict
                [(''type'', PStr ''string''),
                 (''description'', PStr ''New website URL'')])]),
           (''required'', PList [PStr ''contact_id''])]\<rparr>"

definition dex_delete_contact_tool :: Tool where
  "dex_delete_contact_tool =
     \<lparr>name = ''dex_delete_contact'',
      description =
        ''Delete a contact from Dex CRM.'',
      inputSchema =
        PDict
          [(''type'', PStr ''object''),
           (''properties'', PDict
             [(''contact_id'', PDict
                [(''type'', PStr ''string''),
                 (''description'', PStr ''The UUID of the contact to delete'')])]),
           (''required'', PList [PStr ''contact_id''])]\<rparr>"

definition dex_list_notes_tool :: Tool where
  "dex_list_notes_tool =
     \<lparr>name = ''dex_list_notes'',
      description =
        ''List all notes from Dex CRM with pagination. Notes are timeline items that can be associated with contacts.'',
      inputSchema =
        PDict
          [(''type'', PStr ''object''),
           (''properties'', PDict
             [(''limit'', PDict
                [(''type'', PStr ''integer''),
                 (''description'', PStr ''Maximum number of notes to return (default: 10)''),
                 (''default'', PInt 10)]),
              (''offset'', PDict
                [(''type'', PStr ''integer''),
                 (''description'', PStr ''Number of notes to skip for pagination (default: 0)''),
                 (''default'', PInt 0)])])]\<rparr>"

definition dex_get_notes_for_contact_tool :: Tool where
  "dex_get_notes_for_contact_tool =
     \<lparr>name = ''dex_get_notes_for_contact'',
      description =
        ''Get all notes associated with a specific contact.'',
      inputSchema =
        PDict
          [(''type'', PStr ''object''),
           (''properties'', PDict
             [(''contact_id'', PDict
                [(''type'', PStr ''string''),
                 (''description'', PStr ''The UUID of the contact to get notes for'')])]),
           (''required'', PList [PStr ''contact_id''])]\<rparr>"

definition dex_create_note_tool :: Tool where
  "dex_create_note_tool =
     \<lparr>name = ''dex_create_note'',
      description =
        ''Create a new note and associate it with one or more contacts.'',
      inputSchema =
        PDict
          [(''type'', PStr ''object''),
           (''properties'', PDict
             [(''note'', PDict
                [(''type'', PStr ''string''),
                 (''description'', PStr ''The note content'')]),
              (''contact_ids'', PDict
                [(''type'', PStr ''array''),
                 (''items'', PDict [(''type'', PStr ''string'')]),
                 (''description'', PStr ''List of contact UUIDs to associate with this note'')]),
              (''event_time'', PDict
                [(''type'', PStr ''string''),
                 (''description'', PStr ''ISO 8601 timestamp for the note (defaults to now)'')])]),
           (''required'', PList [PStr ''note'', PStr ''contact_ids''])]\<rparr>"

definition dex_update_note_tool :: Tool where
  "dex_update_note_tool =
     \<lparr>name = ''dex_update_note'',
      description =
        ''Update the content of an existing note.'',
      inputSchema =
        PDict
          [(''type'', PStr ''object''),
           (''properties'', PDict
             [(''note_id'', PDict
                [(''type'', PStr ''string''),
                 (''description'', PStr ''The UUID of the note to update'')]),
              (''note'', PDict
                [(''type'', PStr ''string''),
                 (''description'', PStr ''New note content'')])]),
           (''required'', PList [PStr ''note_id'', PStr ''note''])]\<rparr>"

definition dex_delete_note_tool :: Tool where
  "dex_delete_note_tool =
     \<lparr>name = ''dex_delete_note'',
      description =
        ''Delete a note from Dex CRM.'',
      inputSchema =
        PDict
          [(''type'', PStr ''object''),
           (''properties'', PDict
             [(''note_id'', PDict
                [(''type'', PStr ''string''),
                 (''description'', PStr ''The UUID of the note to delete'')])]),
           (''required'', PList [PStr ''note_id''])]\<rparr>"

definition dex_list_reminders_tool :: Tool where
  "dex_list_reminders_tool =
     \<lparr>name = ''dex_list_reminders'',
      description =
        ''List all reminders from Dex CRM with pagination. Reminders can be associated with contacts and have due dates.'',
      inputSchema =
        PDict
          [(''type'', PStr ''object''),
           (''properties'', PDict
             [(''limit'', PDict
                [(''type'', PStr ''integer''),
                 (''description'', PStr ''Maximum number of reminders to return (default: 10)''),
                 (''default'', PInt 10)]),
              (''offset'', PDict
                [(''type'', PStr ''integer''),
                 (''description'', PStr ''Number of reminders to skip for pagination (default: 0)''),
                 (''default'', PInt 0)])])]\<rparr>"

definition dex_create_reminder_tool :: Tool where
  "dex_create_reminder_tool =
     \<lparr>name = ''dex_create_reminder'',
      description =
        ''Create a new reminder, optionally associated with contacts.'',
      inputSchema =
        PDict
          [(''type'', PStr ''object''),
           (''properties'', PDict
             [(''title'', PDict
                [(''type'', PStr ''string''),
                 (''description'', PStr ''Reminder title'')]),
              (''due_date'', PDict
                [(''type'', PStr ''string''),
                 (''description'', PStr ''Due date in YYYY-MM-DD format'')]),
              (''contact_ids'', PDict
                [(''type'', PStr ''array''),
                 (''items'', PDict [(''type'', PStr ''string'')]),
                 (''description'', PStr ''List of contact UUIDs to associate with this reminder'')]),
              (''text'', PDict
                [(''type'', PStr ''string''),
                 (''description'', PStr ''Additional reminder details'')])]),
           (''required'', PList [PStr ''title'', PStr ''due_date''])]\<rparr>"

definition dex_update_reminder_tool :: Tool where
  "dex_update_reminder_tool =
     \<lparr>name = ''dex_update_reminder'',
      description =
        ''Update an existing reminder.'',
      inputSchema =
        PDict
          [(''type'', PStr ''object''),
           (''properties'', PDict
             [(''reminder_id'', PDict
                [(''type'', PStr ''string''),
                 (''description'', PStr ''The UUID of the reminder to update'')]),
              (''title'', PDict [(''type'', PStr ''string''), (''description'', PStr ''New title'')]),
              (''text'', PDict
                [(''type'', PStr ''string''),
                 (''description'', PStr ''New description text'')]),
              (''due_date'', PDict
                [(''type'', PStr ''string''),
                 (''description'', PStr ''New due date in YYYY-MM-DD format'')]),
              (''is_complete'', PDict
                [(''type'', PStr ''boolean''),
                 (''description'', PStr ''Mark as complete or incomplete'')])]),
           (''required'', PList [PStr ''reminder_id''])]\<rparr>"

definition dex_complete_reminder_tool :: Tool where
  "dex_complete_reminder_tool =
     \<lparr>name = ''dex_complete_reminder'',
      description =
        ''Mark a reminder as complete.'',
      inputSchema =
        PDict
          [(''type'', PStr ''object''),
           (''properties'', PDict
             [(''reminder_id'', PDict
                [(''type'', PStr ''string''),
                 (''description'', PStr ''The UUID of the reminder to complete'')])]),
           (''required'', PList [PStr ''reminder_id''])]\<rparr>"

definition dex_delete_reminder_tool :: Tool where
  "dex_delete_reminder_tool =
     \<lparr>name = ''dex_delete_reminder'',
      description =
        ''Delete a reminder from Dex CRM.'',
      inputSchema =
        PDict
          [(''type'', PStr ''object''),
           (''properties'', PDict
             [(''reminder_id'', PDict
                [(''type'', PStr ''string''),
                 (''description'', PStr ''The UUID of the reminder to delete'')])]),
           (''required'', PList [PStr ''reminder_id''])]\<rparr>"

definition list_tools :: "Tool list" where
  "list_tools =
     [dex_list_contacts_tool,
      dex_get_contact_tool,
      dex_search_contacts_tool,
      dex_create_contact_tool,
      dex_update_contact_tool,
      dex_delete_contact_tool,
      dex_list_notes_tool,
      dex_get_notes_for_contact_tool,
      dex_create_note_tool,
      dex_update_note_tool,
      dex_delete_note_tool,
      dex_list_reminders_tool,
      dex_create_reminder_tool,
      dex_update_reminder_tool,
      dex_complete_reminder_tool,
      dex_delete_reminder_tool]"

text \<open>The properties a schema declares, and the names it marks as required.\<close>

definition properties :: "Tool \<Rightarrow> pydict" where
  "properties t =
     (case inputSchema t of
        PDict kvs \<Rightarrow> (case map_of kvs ''properties'' of Some (PDict ps) \<Rightarrow> ps | _ \<Rightarrow> [])
      | _ \<Rightarrow> [])"

definition required :: "Tool \<Rightarrow> pyval list" where
  "required t =
     (case inputSchema t of
        PDict kvs \<Rightarrow> (case map_of kvs ''required'' of Some (PList ns) \<Rightarrow> ns | _ \<Rightarrow> [])
      | _ \<Rightarrow> [])"

fun declared_type :: "pyval \<Rightarrow> pyval option \<times> pyval option" where
  "declared_type (PDict kvs) = (map_of kvs ''type'', map_of kvs ''items'')"
| "declared_type v = (None, None)"

fun declared_default :: "pyval \<Rightarrow> pyval option" where
  "declared_default (PDict kvs) = map_of kvs ''default''"
| "declared_default v = None"

subsection \<open>The signatures of the client's operations\<close>

text \<open>
  The \<open>def\<close> lines of \<open>DexClient\<close>, as data: every public operation (all but
  \<open>__init__\<close>, \<open>close\<close> and \<open>_request\<close>) with its parameters after \<open>self\<close>, their
  annotations and defaults (\<open>None\<close> here: no default, the parameter is required), and the
  name of its \<open>**\<close> parameter if it has one.
\<close>

datatype annotation =
    A_str
  | A_int
  | A_bool
  | A_list_str
  | A_str_or_None
  | A_list_str_or_None
  | A_bool_or_None

record signature =
  parameters :: "(string \<times> annotation \<times> pyval option) list"
  var_keyword :: "string option"

definition DexClient_methods :: "(string \<times> signature) list" where
  "DexClient_methods =
     [(''list_contacts'',
       \<lparr>parameters =
          [(''limit'', A_int, Some (PInt 10)),
           (''offset'', A_int, Some (PInt 0))],
        var_keyword = None\<rparr>),
      (''get_contact'',
       \<lparr>parameters =
          [(''contact_id'', A_str, None)],
        var_keyword = None\<rparr>),
      (''search_contacts_by_email'',
       \<lparr>parameters =
          [(''email'', A_str, None)],
        var_keyword = None\<rparr>),
      (''create_contact'',
       \<lparr>parameters =
          [(''first_name'', A_str, None),
           (''last_name'', A_str, None),
           (''email'', A_str_or_None, Some (PNone)),
           (''phone'', A_str_or_None, Some (PNone)),
           (''phone_label'', A_str, Some (PStr ''Work'')),
           (''job_title'', A_str_or_None, Some (PNone)),
           (''description'', A_str_or_None, Some (PNone)),
           (''linkedin'', A_str_or_None, Some (PNone)),
           (''twitter'', A_str_or_None, Some (PNone)),
           (''instagram'', A_str_or_None, Some (PNone)),
           (''website'', A_str_or_None, Some (PNone))],
        var_keyword = None\<rparr>),
      (''update_contact'',
       \<lparr>parameters =
          [(''contact_id'', A_str, None)],
        var_keyword = Some ''fields''\<rparr>),
      (''delete_contact'',
       \<lparr>parameters =
          [(''contact_id'', A_str, None)],
        var_keyword = None\<rparr>),
      (''list_notes'',
       \<lparr>parameters =
          [(''limit'', A_int, Some (PInt 10)),
           (''offset'', A_int, Some (PInt 0))],
        var_keyword = None\<rparr>),
      (''get_notes_for_contact'',
       \<lparr>parameters =
          [(''contact_id'', A_str, None)],
        var_keyword = None\<rparr>),
      (''create_note'',
       \<lparr>parameters =
          [(''note'', A_str, None),
           (''contact_ids'', A_list_str, None),
           (''event_time'', A_str_or_None, Some (PNone))],
        var_keyword = None\<rparr>),
      (''update_note'',
       \<lparr>parameters =
          [(''note_id'', A_str, None),
           (''note'', A_str, None)],
        var_keyword = None\<rparr>),
      (''delete_note'',
       \<lparr>parameters =
          [(''note_id'', A_str, None)],
        var_keyword = None\<rparr>),
      (''list_reminders'',
       \<lparr>parameters =
          [(''limit'', A_int, Some (PInt 10)),
           (''offset'', A_int, Some (PInt 0))],
        var_keyword = None\<rparr>),
      (''create_reminder'',
       \<lparr>parameters =
          [(''title'', A_str, None),
           (''due_date'', A_str, None),
           (''contact_ids'', A_list_str_or_None, Some (PNone)),
           (''text'', A_str_or_None, Some (PNone)),
           (''is_complete'', A_bool, Some (PBool False))],
        var_keyword = None\<rparr>),
      (''update_reminder'',
       \<lparr>parameters =
          [(''reminder_id'', A_str, None),
           (''title'', A_str_or_None, Some (PNone)),
           (''text'', A_str_or_None, Some (PNone)),
           (''due_date'', A_str_or_None, Some (PNone)),
           (''is_complete'', A_bool_or_None, Some (PNone))],
        var_keyword = None\<rparr>),
      (''delete_reminder'',
       \<lparr>parameters =
          [(''reminder_id'', A_str, None)],
        var_keyword = None\<rparr>),
      (''complete_reminder'',
       \<lparr>parameters =
          [(''reminder_id'', A_str, None)],
        var_keyword = None\<rparr>)]"

text \<open>The operation each branch of \<open>call_tool\<close> calls.\<close>

definition tool_methods :: "(string \<times> string) list" where
  "tool_methods =
     [(''dex_list_contacts'', ''list_contacts''),
      (''dex_get_contact'', ''get_contact''),
      (''dex_search_contacts'', ''search_contacts_by_email''),
      (''dex_create_contact'', ''create_contact''),
      (''dex_update_contact'', ''update_contact''),
      (''dex_delete_contact'', ''delete_contact''),
      (''dex_list_notes'', ''list_notes''),
      (''dex_get_notes_for_contact'', ''get_notes_for_contact''),
      (''dex_create_note'', ''create_note''),
      (''dex_update_note'', ''update_note''),
      (''dex_delete_note'', ''delete_note''),
      (''dex_list_reminders'', ''list_reminders''),
      (''dex_create_reminder'', ''create_reminder''),
      (''dex_update_reminder'', ''update_reminder''),
      (''dex_complete_reminder'', ''complete_reminder''),
      (''dex_delete_reminder'', ''delete_reminder'')]"

definition signature_of :: "Tool \<Rightarrow> signature option" where
  "signature_of t =
     (case map_of tool_methods (name t) of
        None \<Rightarrow> None
      | Some m \<Rightarrow> map_of DexClient_methods m)"

text \<open>The JSON-schema type that stands for an annotation.\<close>

fun annotation_type :: "annotation \<Rightarrow> pyval option \<times> pyval option" where
  "annotation_type A_str = (Some (PStr ''string''), None)"
| "annotation_type A_str_or_None = (Some (PStr ''string''), None)"
| "annotation_type A_int = (Some (PStr ''integer''), None)"
| "annotation_type A_bool = (Some (PStr ''boolean''), None)"
| "annotation_type A_bool_or_None = (Some (PStr ''boolean''), None)"
| "annotation_type A_list_str = (Some (PStr ''array''), Some (PDict [(''type'', PStr ''string'')]))"
| "annotation_type A_list_str_or_None =
     (Some (PStr ''array''), Some (PDict [(''type'', PStr ''string'')]))"

definition required_names :: "signature \<Rightarrow> pyval list" where
  "required_names sg = map (\<lambda>p. PStr (fst p)) (filter (\<lambda>p. snd (snd p) = None) (parameters sg))"

text \<open>
  A schema mirrors a signature, in the words of the specification: the same parameter
  names, matching types, the default declared wherever the method has one (the default
  \<open>None\<close>, which only marks a parameter as optional, asks for no declaration), and the
  required markers exactly on the parameters without a default.
\<close>

definition mirrors :: "Tool \<Rightarrow> signature \<Rightarrow> bool" where
  "mirrors t sg \<longleftrightarrow>
     keys (properties t) = map fst (parameters sg) \<and>
     list_all2
       (\<lambda>kp p. declared_type (snd kp) = annotation_type (fst (snd p)) \<and>
                (case snd (snd p) of
                   None \<Rightarrow> True
                 | Some d \<Rightarrow> d = PNone \<or> declared_default (snd kp) = Some d))
       (properties t) (parameters sg) \<and>
     required t = required_names sg"

definition mirrors_client :: "Tool \<Rightarrow> bool" where
  "mirrors_client t = (case signature_of t of None \<Rightarrow> False | Some sg \<Rightarrow> mirrors t sg)"

text \<open>
  The same without the names: every property a schema lists is typed as the parameter of
  that name and declares a default exactly when that parameter's default is not \<open>None\<close>,
  the same value (a property the method takes only through its \<open>**\<close> parameter has no
  annotation to compare with, and declares no default); the required markers are exactly
  on the parameters without a default.
\<close>

definition property_agrees :: "signature \<Rightarrow> string \<times> pyval \<Rightarrow> bool" where
  "property_agrees sg kp =
     (case map_of (parameters sg) (fst kp) of
        None \<Rightarrow> var_keyword sg \<noteq> None \<and> declared_default (snd kp) = None
      | Some (a, d) \<Rightarrow>
          declared_type (snd kp) = annotation_type a \<and>
          declared_default (snd kp) = (if d = Some PNone then None else d))"

definition agrees :: "Tool \<Rightarrow> bool" where
  "agrees t =
     (case signature_of t of
        None \<Rightarrow> False
      | Some sg \<Rightarrow> list_all (property_agrees sg) (properties t) \<and> required t = required_names sg)"

section \<open>Observing a call\<close>

text \<open>The requests a call hands to the HTTP stack, in order, when it starts in \<open>s\<close>.\<close>

definition requests_of :: "('w state \<Rightarrow> 'r \<times> 'w state) \<Rightarrow> 'w state \<Rightarrow> request list" where
  "requests_of f s = drop (length (sent s)) (sent (snd (f s)))"

text \<open>The keys of the object a request body nests under its one top-level key.\<close>

fun body_keys :: "request \<Rightarrow> string list" where
  "body_keys rq =
     (case json rq of
        Some (PDict [(k, PDict kvs)]) \<Rightarrow> keys kvs
      | _ \<Rightarrow> [])"

text \<open>
  A runtime and a state to compute examples with: no API key in the environment, a
  constructor that refuses, as httpx does, a header value with a character outside ASCII
  (its message shortened), a remote end that answers every request with \<open>{"ok": true}\<close>,
  a fixed clock. \<open>with_key\<close> puts a key into the environment.
\<close>

definition ascii :: "string \<Rightarrow> bool" where
  "ascii v = list_all (\<lambda>ch. (of_char ch :: nat) < 128) v"

definition demo_runtime :: "unit runtime" where
  "demo_runtime =
     \<lparr>environ = (\<lambda>k. None),
      async_client =
        (\<lambda>base headers.
           if list_all (\<lambda>h. ascii (snd h)) headers then None
           else Some (LibraryError ''ordinal not in range(128)'')),
      http = (\<lambda>base key rq w. (Inr (PDict [(''ok'', PBool True)]), w)),
      utcnow_isoformat = (\<lambda>w. ''2024-06-01T12:00:00+00:00''),
      json_dumps = (\<lambda>v. Inr ''{...}''),
      format_other = (\<lambda>v. ''?'')\<rparr>"

definition with_key :: "string \<Rightarrow> 'w runtime \<Rightarrow> 'w runtime" where
  "with_key k rt = rt\<lparr>environ := (\<lambda>n. if n = ''DEX_API_KEY'' then Some k else None)\<rparr>"

definition demo_client :: DexClient where
  "demo_client = \<lparr>api_key = ''secret''\<rparr>"

definition fresh_state :: "unit state" where
  "fresh_state = \<lparr>global_client = None, sent = [], world = ()\<rparr>"

definition ready_state :: "unit state" where
  "ready_state = \<lparr>global_client = Some demo_client, sent = [], world = ()\<rparr>"

section \<open>The request each operation sends\<close>

text \<open>
  Every operation of the client hands exactly one request to the HTTP stack. The lemmas
  give it in full, for any runtime and any state.
\<close>

lemma sent_private_request:
  "sent (snd (private_request rt c m p ps j s)) =
     sent s @ [\<lparr>method = m, path = p, params = ps, json = j\<rparr>]"
  by (simp add: private_request_def Let_def split: prod.splits)

lemma update_contact_sent:
  "sent (snd (update_contact rt c cid kwargs s)) =
     sent s @
     [\<lparr>method = ''PUT'', path = ''/contacts/'' @ fstr rt cid, params = None,
       json = Some (PDict [(''contact'', PDict kwargs)])\<rparr>]"
  by (simp add: update_contact_def sent_private_request)

lemma update_reminder_sent:
  "sent (snd (update_reminder rt c rid title txt due is_complete s)) =
     sent s @
     [\<lparr>method = ''PUT'', path = ''/reminders/'' @ fstr rt rid, params = None,
       json = Some (PDict [(''reminder'',
         PDict (filter (\<lambda>kv. snd kv \<noteq> PNone)
           [(''title'', arg_or PNone title),
            (''text'', arg_or PNone txt),
            (''due_at_date'', arg_or PNone due),
            (''is_complete'', arg_or PNone is_complete)]))])\<rparr>]"
  by (simp add: update_reminder_def sent_private_request Let_def)

lemma create_contact_sent:
  "sent (snd (create_contact rt c first_name last_name email phone phone_label job_title
       descr linkedin twitter instagram website s)) =
     sent s @
     [\<lparr>method = ''POST'', path = ''/contacts'', params = None,
       json = Some (PDict [(''contact'',
         PDict ([(''first_name'', first_name),
                 (''last_name'', last_name),
                 (''job_title'', arg_or PNone job_title),
                 (''description'', arg_or PNone descr),
                 (''linkedin'', arg_or PNone linkedin),
                 (''twitter'', arg_or PNone twitter),
                 (''instagram'', arg_or PNone instagram),
                 (''website'', arg_or PNone website)] @
                (if truthy (arg_or PNone email)
                 then [(''contact_emails'',
                        PDict [(''data'', PDict [(''email'', arg_or PNone email)])])]
                 else []) @
                (if truthy (arg_or PNone phone)
                 then [(''contact_phone_numbers'',
                        PDict [(''data'',
                          PDict [(''phone_number'', arg_or PNone phone),
                                 (''label'', arg_or (PStr ''Work'') phone_label)])])]
                 else [])))])\<rparr>]"
  by (simp add: create_contact_def sent_private_request Let_def)

lemma create_note_sent:
  "sent (snd (create_note rt c note (PList cids) event_time s)) =
     sent s @
     [\<lparr>method = ''POST'', path = ''/timeline_items'', params = None,
       json = Some (PDict [(''timeline_event'',
         PDict [(''note'', note),
                (''event_time'',
                   if arg_or PNone event_time = PNone
                   then PStr (utcnow_isoformat rt (world s)) else arg_or PNone event_time),
                (''meeting_type'', PStr ''note''),
                (''timeline_items_contacts'',
                   PDict [(''data'', PList (map (\<lambda>cid. PDict [(''contact_id'', cid)]) cids))])])])\<rparr>]"
  by (simp add: create_note_def sent_private_request Let_def contact_entries_def)

lemma create_reminder_sent:
  "sent (snd (create_reminder rt c title due (map_option PList cids) txt is_complete s)) =
     sent s @
     [\<lparr>method = ''POST'', path = ''/reminders'', params = None,
       json = Some (PDict [(''reminder'',
         PDict ([(''title'', title),
                 (''text'', arg_or PNone txt),
                 (''is_complete'', arg_or (PBool False) is_complete),
                 (''due_at_date'', due)] @
                (if cids = None \<or> cids = Some [] then []
                 else [(''reminders_contacts'',
                        PDict [(''data'',
                          PList (map (\<lambda>cid. PDict [(''contact_id'', cid)]) (the cids)))])])))])\<rparr>]"
  by (cases cids) (simp_all add: create_reminder_def sent_private_request Let_def contact_entries_def arg_or_def)

section \<open>Partial updates\<close>

text \<open>
  C3. For every contact id and every set of update fields, \<open>update_contact\<close> sends a body
  whose \<open>contact\<close> object has exactly the supplied keys (and values), no others; for every
  reminder id, \<open>update_reminder\<close> sends a body whose \<open>reminder\<close> object is exactly the
  non-null part of title, text, due_at_date, is_complete (\<open>due_date\<close> goes under
  \<open>due_at_date\<close>). Calling the same update a second time, in the state the first call
  left, sends the same body again.
\<close>

theorem update_bodies_exact:
  "requests_of (update_contact rt c cid kwargs) s =
     [\<lparr>method = ''PUT'', path = ''/contacts/'' @ fstr rt cid, params = None,
       json = Some (PDict [(''contact'', PDict kwargs)])\<rparr>] \<and>
   map body_keys (requests_of (update_contact rt c cid kwargs) s) = [keys kwargs] \<and>
   requests_of (update_reminder rt c rid title txt due is_complete) s =
     [\<lparr>method = ''PUT'', path = ''/reminders/'' @ fstr rt rid, params = None,
       json = Some (PDict [(''reminder'',
         PDict (filter (\<lambda>kv. snd kv \<noteq> PNone)
           [(''title'', arg_or PNone title),
            (''text'', arg_or PNone txt),
            (''due_at_date'', arg_or PNone due),
            (''is_complete'', arg_or PNone is_complete)]))])\<rparr>] \<and>
   map json (requests_of
       (\<lambda>s0. update_contact rt c cid kwargs (snd (update_contact rt c cid kwargs s0))) s) =
     [Some (PDict [(''contact'', PDict kwargs)]), Some (PDict [(''contact'', PDict kwargs)])] \<and>
   map json (requests_of
       (\<lambda>s0. update_reminder rt c rid title txt due is_complete
               (snd (update_reminder rt c rid title txt due is_complete s0))) s) =
     replicate 2
       (Some (PDict [(''reminder'',
          PDict (filter (\<lambda>kv. snd kv \<noteq> PNone)
            [(''title'', arg_or PNone title),
             (''text'', arg_or PNone txt),
             (''due_at_date'', arg_or PNone due),
             (''is_complete'', arg_or PNone is_complete)]))]))"
  by (simp add: requests_of_def update_contact_sent update_reminder_sent numeral_2_eq_2)

section \<open>Completing a reminder\<close>

text \<open>
  C5. For every reminder id, \<open>complete_reminder(reminder_id)\<close> is
  \<open>update_reminder(reminder_id, is_complete=True)\<close>: the same result and the same final
  state, and both send the one request \<open>PUT /reminders/{reminder_id}\<close> with the body
  \<open>{"reminder": {"is_complete": true}}\<close>.
\<close>

theorem complete_reminder_is_update:
  "complete_reminder rt c rid s =
     update_reminder rt c rid None None None (Some (PBool True)) s \<and>
   requests_of (complete_reminder rt c rid) s =
     [\<lparr>method = ''PUT'', path = ''/reminders/'' @ fstr rt rid, params = None,
       json = Some (PDict [(''reminder'', PDict [(''is_complete'', PBool True)])])\<rparr>] \<and>
   requests_of (update_reminder rt c rid None None None (Some (PBool True))) s =
     requests_of (complete_reminder rt c rid) s"
  by (simp add: requests_of_def complete_reminder_def update_reminder_sent arg_or_def)

section \<open>Optional fields of the create operations\<close>

text \<open>
  C2 says that an omitted optional field is absent from the body and a supplied one, even
  a falsy one such as \<open>email=""\<close> or \<open>phone=""\<close>, is present. Here
  \<open>create_contact\<close> is given an empty email and an empty phone and nothing else
  optional: the body has neither \<open>contact_emails\<close> nor \<open>contact_phone_numbers\<close>, and
  it has the six omitted scalar fields, as nulls.
\<close>

theorem create_contact_blank_email_phone_left_out:
  "requests_of
     (create_contact demo_runtime demo_client (PStr ''Grace'') (PStr ''Hopper'')
        (Some (PStr '''')) (Some (PStr '''')) None None None None None None None) ready_state =
   [\<lparr>method = ''POST'', path = ''/contacts'', params = None,
     json = Some (PDict [(''contact'',
       PDict [(''first_name'', PStr ''Grace''),
              (''last_name'', PStr ''Hopper''),
              (''job_title'', PNone),
              (''description'', PNone),
              (''linkedin'', PNone),
              (''twitter'', PNone),
              (''instagram'', PNone),
              (''website'', PNone)])])\<rparr>]"
  by (simp add: requests_of_def create_contact_sent arg_or_def ready_state_def)

text \<open>
  C2, as the code has it. \<open>create_contact\<close>: job_title, description, linkedin, twitter,
  instagram and website are always in the body (null when omitted); \<open>contact_emails\<close>
  is there exactly when email is supplied and truthy, \<open>contact_phone_numbers\<close> exactly
  when phone is (phone_label appears only inside it). \<open>create_note\<close>: event_time and
  \<open>timeline_items_contacts\<close> are always there. \<open>create_reminder\<close>: text and
  is_complete are always there, \<open>reminders_contacts\<close> exactly when contact_ids is a
  non-empty list.
\<close>

theorem create_bodies_fields:
  "requests_of (create_contact rt c first_name last_name email phone phone_label job_title
        descr linkedin twitter instagram website) s =
     [\<lparr>method = ''POST'', path = ''/contacts'', params = None,
       json = Some (PDict [(''contact'',
         PDict ([(''first_name'', first_name),
                 (''last_name'', last_name),
                 (''job_title'', arg_or PNone job_title),
                 (''description'', arg_or PNone descr),
                 (''linkedin'', arg_or PNone linkedin),
                 (''twitter'', arg_or PNone twitter),
                 (''instagram'', arg_or PNone instagram),
                 (''website'', arg_or PNone website)] @
                (if truthy (arg_or PNone email)
                 then [(''contact_emails'',
                        PDict [(''data'', PDict [(''email'', arg_or PNone email)])])]
                 else []) @
                (if truthy (arg_or PNone phone)
                 then [(''contact_phone_numbers'',
                        PDict [(''data'',
                          PDict [(''phone_number'', arg_or PNone phone),
                                 (''label'', arg_or (PStr ''Work'') phone_label)])])]
                 else [])))])\<rparr>] \<and>
   requests_of (create_contact rt c first_name last_name None None phone_label None None None
        None None None) s =
     [\<lparr>method = ''POST'', path = ''/contacts'', params = None,
       json = Some (PDict [(''contact'',
         PDict [(''first_name'', first_name),
                (''last_name'', last_name),
                (''job_title'', PNone),
                (''description'', PNone),
                (''linkedin'', PNone),
                (''twitter'', PNone),
                (''instagram'', PNone),
                (''website'', PNone)])])\<rparr>] \<and>
   map body_keys
     (requests_of (create_contact rt c first_name last_name email phone phone_label job_title
        descr linkedin twitter instagram website) s) =
     [[''first_name'', ''last_name'', ''job_title'', ''description'', ''linkedin'', ''twitter'',
       ''instagram'', ''website''] @
      (if truthy (arg_or PNone email) then [''contact_emails''] else []) @
      (if truthy (arg_or PNone phone) then [''contact_phone_numbers''] else [])] \<and>
   requests_of (create_note rt c note (PList cids) event_time) s =
     [\<lparr>method = ''POST'', path = ''/timeline_items'', params = None,
       json = Some (PDict [(''timeline_event'',
         PDict [(''note'', note),
                (''event_time'',
                   if arg_or PNone event_time = PNone
                   then PStr (utcnow_isoformat rt (world s)) else arg_or PNone event_time),
                (''meeting_type'', PStr ''note''),
                (''timeline_items_contacts'',
                   PDict [(''data'',
                     PList (map (\<lambda>cid. PDict [(''contact_id'', cid)]) cids))])])])\<rparr>] \<and>
   map body_keys (requests_of (create_note rt c note (PList cids) event_time) s) =
     [[''note'', ''event_time'', ''meeting_type'', ''timeline_items_contacts'']] \<and>
   requests_of (create_reminder rt c title due (map_option PList rcids) txt is_complete) s =
     [\<lparr>method = ''POST'', path = ''/reminders'', params = None,
       json = Some (PDict [(''reminder'',
         PDict ([(''title'', title),
                 (''text'', arg_or PNone txt),
                 (''is_complete'', arg_or (PBool False) is_complete),
                 (''due_at_date'', due)] @
                (case rcids of
                   None \<Rightarrow> []
                 | Some ids \<Rightarrow>
                     if ids = [] then []
                     else [(''reminders_contacts'',
                            PDict [(''data'',
                              PList (map (\<lambda>cid. PDict [(''contact_id'', cid)]) ids))])])))])\<rparr>] \<and>
   requests_of (create_reminder rt c title due None None None) s =
     [\<lparr>method = ''POST'', path = ''/reminders'', params = None,
       json = Some (PDict [(''reminder'',
         PDict [(''title'', title),
                (''text'', PNone),
                (''is_complete'', PBool False),
                (''due_at_date'', due)])])\<rparr>] \<and>
   map body_keys
     (requests_of (create_reminder rt c title due (map_option PList rcids) txt is_complete) s) =
     [[''title'', ''text'', ''is_complete'', ''due_at_date''] @
      (if rcids = None \<or> rcids = Some [] then [] else [''reminders_contacts''])]"
proof -
  have contact: "requests_of (create_contact rt c first_name last_name e p pl jt de li tw ig
        we) s =
     [\<lparr>method = ''POST'', path = ''/contacts'', params = None,
       json = Some (PDict [(''contact'',
         PDict ([(''first_name'', first_name),
                 (''last_name'', last_name),
                 (''job_title'', arg_or PNone jt),
                 (''description'', arg_or PNone de),
                 (''linkedin'', arg_or PNone li),
                 (''twitter'', arg_or PNone tw),
                 (''instagram'', arg_or PNone ig),
                 (''website'', arg_or PNone we)] @
                (if truthy (arg_or PNone e)
                 then [(''contact_emails'',
                        PDict [(''data'', PDict [(''email'', arg_or PNone e)])])]
                 else []) @
                (if truthy (arg_or PNone p)
                 then [(''contact_phone_numbers'',
                        PDict [(''data'',
                          PDict [(''phone_number'', arg_or PNone p),
                                 (''label'', arg_or (PStr ''Work'') pl)])])]
                 else [])))])\<rparr>]" for e p pl jt de li tw ig we
    by (simp add: requests_of_def create_contact_sent)
  have note_rq: "requests_of (create_note rt c note (PList cids) event_time) s =
     [\<lparr>method = ''POST'', path = ''/timeline_items'', params = None,
       json = Some (PDict [(''timeline_event'',
         PDict [(''note'', note),
                (''event_time'',
                   if arg_or PNone event_time = PNone
                   then PStr (utcnow_isoformat rt (world s)) else arg_or PNone event_time),
                (''meeting_type'', PStr ''note''),
                (''timeline_items_contacts'',
                   PDict [(''data'',
                     PList (map (\<lambda>cid. PDict [(''contact_id'', cid)]) cids))])])])\<rparr>]"
    by (simp add: requests_of_def create_note_sent)
  have reminder: "requests_of (create_reminder rt c title due (map_option PList ro) tx ic) s =
     [\<lparr>method = ''POST'', path = ''/reminders'', params = None,
       json = Some (PDict [(''reminder'',
         PDict ([(''title'', title),
                 (''text'', arg_or PNone tx),
                 (''is_complete'', arg_or (PBool False) ic),
                 (''due_at_date'', due)] @
                (case ro of
                   None \<Rightarrow> []
                 | Some ids \<Rightarrow>
                     if ids = [] then []
                     else [(''reminders_contacts'',
                            PDict [(''data'',
                              PList (map (\<lambda>cid. PDict [(''contact_id'', cid)]) ids))])])))])\<rparr>]"
    for ro tx ic
    using create_reminder_sent [of rt c title due ro tx ic s]
    by (cases ro) (simp_all add: requests_of_def)
  have contact_omitted: "requests_of (create_contact rt c first_name last_name None None
        phone_label None None None None None None) s =
     [\<lparr>method = ''POST'', path = ''/contacts'', params = None,
       json = Some (PDict [(''contact'',
         PDict [(''first_name'', first_name),
                (''last_name'', last_name),
                (''job_title'', PNone),
                (''description'', PNone),
                (''linkedin'', PNone),
                (''twitter'', PNone),
                (''instagram'', PNone),
                (''website'', PNone)])])\<rparr>]"
    by (simp add: contact arg_or_def)
  have reminder_omitted: "requests_of (create_reminder rt c title due None None None) s =
     [\<lparr>method = ''POST'', path = ''/reminders'', params = None,
       json = Some (PDict [(''reminder'',
         PDict [(''title'', title),
                (''text'', PNone),
                (''is_complete'', PBool False),
                (''due_at_date'', due)])])\<rparr>]"
    using reminder [of None None None] by (simp add: arg_or_def)
  have contact_keys: "map body_keys
     (requests_of (create_contact rt c first_name last_name email phone phone_label job_title
        descr linkedin twitter instagram website) s) =
     [[''first_name'', ''last_name'', ''job_title'', ''description'', ''linkedin'', ''twitter'',
       ''instagram'', ''website''] @
      (if truthy (arg_or PNone email) then [''contact_emails''] else []) @
      (if truthy (arg_or PNone phone) then [''contact_phone_numbers''] else [])]"
    by (simp add: contact keys_def)
  have note_keys: "map body_keys (requests_of (create_note rt c note (PList cids) event_time) s) =
     [[''note'', ''event_time'', ''meeting_type'', ''timeline_items_contacts'']]"
    by (simp add: note_rq keys_def)
  have reminder_keys: "map body_keys
     (requests_of (create_reminder rt c title due (map_option PList rcids) txt is_complete) s) =
     [[''title'', ''text'', ''is_complete'', ''due_at_date''] @
      (if rcids = None \<or> rcids = Some [] then [] else [''reminders_contacts''])]"
    using reminder [of rcids "txt" is_complete]
    by (cases rcids) (simp_all add: keys_def)
  from contact [of email phone phone_label job_title descr linkedin twitter instagram website]
    contact_omitted contact_keys note_rq note_keys reminder [of rcids "txt" is_complete]
    reminder_omitted reminder_keys
  show ?thesis by blast
qed

section \<open>Empty association lists\<close>

text \<open>
  C6. \<open>create_reminder\<close> with contact_ids omitted or the empty list sends a body without
  a \<open>reminders_contacts\<close> key (the same request in both cases); \<open>create_note\<close> always
  sends \<open>timeline_items_contacts\<close>, whose \<open>data\<close> list has one \<open>{contact_id}\<close> entry
  per id supplied, in order: the empty list when no id is supplied.
\<close>

theorem empty_contact_ids_asymmetry:
  "requests_of (create_reminder rt c title due None txt is_complete) s =
     [\<lparr>method = ''POST'', path = ''/reminders'', params = None,
       json = Some (PDict [(''reminder'',
         PDict [(''title'', title),
                (''text'', arg_or PNone txt),
                (''is_complete'', arg_or (PBool False) is_complete),
                (''due_at_date'', due)])])\<rparr>] \<and>
   requests_of (create_reminder rt c title due (Some (PList [])) txt is_complete) s =
     requests_of (create_reminder rt c title due None txt is_complete) s \<and>
   map body_keys (requests_of (create_reminder rt c title due (Some (PList [])) txt is_complete) s) =
     [[''title'', ''text'', ''is_complete'', ''due_at_date'']] \<and>
   requests_of (create_note rt c note (PList cids) event_time) s =
     [\<lparr>method = ''POST'', path = ''/timeline_items'', params = None,
       json = Some (PDict [(''timeline_event'',
         PDict [(''note'', note),
                (''event_time'',
                   if arg_or PNone event_time = PNone
                   then PStr (utcnow_isoformat rt (world s)) else arg_or PNone event_time),
                (''meeting_type'', PStr ''note''),
                (''timeline_items_contacts'',
                   PDict [(''data'',
                     PList (map (\<lambda>cid. PDict [(''contact_id'', cid)]) cids))])])])\<rparr>] \<and>
   map body_keys (requests_of (create_note rt c note (PList []) event_time) s) =
     [[''note'', ''event_time'', ''meeting_type'', ''timeline_items_contacts'']]"
  using create_reminder_sent [of rt c title due None "txt" is_complete s]
    create_reminder_sent [of rt c title due "Some []" "txt" is_complete s]
  by (simp add: requests_of_def create_note_sent keys_def)

section \<open>Notes: meeting type and event time\<close>

text \<open>
  C7. Every request of \<open>create_note\<close> carries \<open>meeting_type = "note"\<close>. An event_time
  that is supplied (any string) is in the body unchanged; the clock's current time is
  used when event_time is omitted, or is \<open>None\<close>.
\<close>

theorem create_note_meeting_type_and_event_time:
  "requests_of (create_note rt c note (PList cids) (Some (PStr t))) s =
     [\<lparr>method = ''POST'', path = ''/timeline_items'', params = None,
       json = Some (PDict [(''timeline_event'',
         PDict [(''note'', note),
                (''event_time'', PStr t),
                (''meeting_type'', PStr ''note''),
                (''timeline_items_contacts'',
                   PDict [(''data'',
                     PList (map (\<lambda>cid. PDict [(''contact_id'', cid)]) cids))])])])\<rparr>] \<and>
   requests_of (create_note rt c note (PList cids) None) s =
     [\<lparr>method = ''POST'', path = ''/timeline_items'', params = None,
       json = Some (PDict [(''timeline_event'',
         PDict [(''note'', note),
                (''event_time'', PStr (utcnow_isoformat rt (world s))),
                (''meeting_type'', PStr ''note''),
                (''timeline_items_contacts'',
                   PDict [(''data'',
                     PList (map (\<lambda>cid. PDict [(''contact_id'', cid)]) cids))])])])\<rparr>] \<and>
   requests_of (create_note rt c note (PList cids) (Some PNone)) s =
     requests_of (create_note rt c note (PList cids) None) s"
  by (simp add: requests_of_def create_note_sent arg_or_def)

section \<open>The scenario of a contact with an email\<close>

text \<open>
  C9 says that \<open>create_contact\<close> with first_name, last_name and email alone nests the
  email under \<open>contact_emails\<close>. With the email \<open>""\<close> it does not: the body has no
  \<open>contact_emails\<close> key.
\<close>

theorem create_contact_blank_email_not_nested:
  "requests_of
     (create_contact demo_runtime demo_client (PStr ''Ada'') (PStr ''Lovelace'')
        (Some (PStr '''')) None None None None None None None None) ready_state =
   [\<lparr>method = ''POST'', path = ''/contacts'', params = None,
     json = Some (PDict [(''contact'',
       PDict [(''first_name'', PStr ''Ada''),
              (''last_name'', PStr ''Lovelace''),
              (''job_title'', PNone),
              (''description'', PNone),
              (''linkedin'', PNone),
              (''twitter'', PNone),
              (''instagram'', PNone),
              (''website'', PNone)])])\<rparr>]"
  by (simp add: requests_of_def create_contact_sent arg_or_def ready_state_def)

text \<open>
  C9, as the code has it: with first_name, last_name and an email that is truthy (for a
  string: not empty) and nothing else, the \<open>contact\<close> object has job_title, description,
  linkedin, twitter, instagram and website present with value null, the email nested as
  \<open>contact_emails: {data: {email}}\<close>, and no \<open>contact_phone_numbers\<close> key.
\<close>

theorem create_contact_names_and_email:
  assumes "truthy email"
  shows "requests_of
     (create_contact rt c first_name last_name (Some email) None None None None None None
        None None) s =
   [\<lparr>method = ''POST'', path = ''/contacts'', params = None,
     json = Some (PDict [(''contact'',
       PDict [(''first_name'', first_name),
              (''last_name'', last_name),
              (''job_title'', PNone),
              (''description'', PNone),
              (''linkedin'', PNone),
              (''twitter'', PNone),
              (''instagram'', PNone),
              (''website'', PNone),
              (''contact_emails'', PDict [(''data'', PDict [(''email'', email)])])])])\<rparr>]"
  using assms by (simp add: requests_of_def create_contact_sent arg_or_def)

theorem create_contact_names_and_email_witness:
  "truthy (PStr ''ada@example.com'') \<and>
   requests_of
     (create_contact demo_runtime demo_client (PStr ''Ada'') (PStr ''Lovelace'')
        (Some (PStr ''ada@example.com'')) None None None None None None None None) ready_state =
   [\<lparr>method = ''POST'', path = ''/contacts'', params = None,
     json = Some (PDict [(''contact'',
       PDict [(''first_name'', PStr ''Ada''),
              (''last_name'', PStr ''Lovelace''),
              (''job_title'', PNone),
              (''description'', PNone),
              (''linkedin'', PNone),
              (''twitter'', PNone),
              (''instagram'', PNone),
              (''website'', PNone),
              (''contact_emails'',
                 PDict [(''data'', PDict [(''email'', PStr ''ada@example.com'')])])])])\<rparr>]"
proof -
  have h: "truthy (PStr ''ada@example.com'')" by simp
  show ?thesis
    using h create_contact_names_and_email [OF h, of demo_runtime demo_client
        "PStr ''Ada''" "PStr ''Lovelace''" ready_state]
    by simp
qed

section \<open>The dispatcher\<close>

text \<open>
  \<open>get_client\<close> gives the client exactly when it was made before, or \<open>DEX_API_KEY\<close>
  holds a non-empty value that \<open>DexClient\<close> can be constructed from; it sends nothing.
  The names of the catalog are the names the chain of \<open>call_tool\<close> knows.
\<close>

lemma get_client_available:
  assumes "global_client s \<noteq> None \<or>
    (\<exists>k c. environ rt ''DEX_API_KEY'' = Some k \<and> k \<noteq> [] \<and> DexClient_init rt k = Inr c)"
  shows "\<exists>c s0. get_client rt s = Inr (c, s0)"
  using assms by (auto simp add: get_client_def split: option.splits)

lemma get_client_unavailable:
  assumes "\<not> (global_client s \<noteq> None \<or>
    (\<exists>k c. environ rt ''DEX_API_KEY'' = Some k \<and> k \<noteq> [] \<and> DexClient_init rt k = Inr c))"
  shows "\<exists>e. get_client rt s = Inl e"
  using assms by (auto simp add: get_client_def split: option.splits sum.splits)

lemma get_client_keeps_sent:
  "get_client rt s = Inr (c, s0) \<Longrightarrow> sent s0 = sent s \<and> world s0 = world s"
  by (auto simp add: get_client_def split: option.splits if_splits sum.splits)

lemma catalog_names:
  "map name list_tools =
     [''dex_list_contacts'', ''dex_get_contact'', ''dex_search_contacts'',
      ''dex_create_contact'', ''dex_update_contact'', ''dex_delete_contact'',
      ''dex_list_notes'', ''dex_get_notes_for_contact'', ''dex_create_note'',
      ''dex_update_note'', ''dex_delete_note'',
      ''dex_list_reminders'', ''dex_create_reminder'', ''dex_update_reminder'',
      ''dex_complete_reminder'', ''dex_delete_reminder'']"
  by (simp add: list_tools_def dex_list_contacts_tool_def dex_get_contact_tool_def
      dex_search_contacts_tool_def dex_create_contact_tool_def dex_update_contact_tool_def
      dex_delete_contact_tool_def dex_list_notes_tool_def dex_get_notes_for_contact_tool_def
      dex_create_note_tool_def dex_update_note_tool_def dex_delete_note_tool_def
      dex_list_reminders_tool_def dex_create_reminder_tool_def dex_update_reminder_tool_def
      dex_complete_reminder_tool_def dex_delete_reminder_tool_def)

lemma tool_result_unknown:
  assumes "nm \<notin> set (map name list_tools)"
  shows "tool_result rt c nm arguments s = None"
  using assms unfolding catalog_names by (simp add: tool_result_def)

lemma tool_result_known:
  assumes "nm \<in> set (map name list_tools)"
  shows "tool_result rt c nm arguments s \<noteq> None"
  using assms unfolding catalog_names by (auto simp add: tool_result_def)

subsection \<open>One text for every call\<close>

text \<open>
  C1 says that \<open>call_tool\<close> gives one text content for any name, any arguments and any
  environment, and never raises. With no client made yet and no \<open>DEX_API_KEY\<close> in the
  environment, \<open>get_client()\<close>, which stands before the \<open>try\<close>, raises \<open>ValueError\<close>,
  and the exception leaves \<open>call_tool\<close>; with a key that the constructor of the HTTP
  client refuses (here one with a character outside ASCII), the constructor's exception
  leaves \<open>call_tool\<close> the same way.
\<close>

theorem call_tool_raises_without_key:
  "call_tool demo_runtime ''dex_list_contacts'' [] fresh_state =
     (Inl (ValueError missing_key_message), fresh_state) \<and>
   call_tool (with_key (''cl'' @ [CHR 0xE9]) demo_runtime) ''dex_list_contacts'' [] fresh_state =
     (Inl (LibraryError ''ordinal not in range(128)''), fresh_state)"
  by (simp add: call_tool_def get_client_def DexClient_init_def with_key_def ascii_def
      demo_runtime_def fresh_state_def)

text \<open>
  C1, as the code has it: for every name and every argument mapping, when the client is
  available (made before, or \<open>DEX_API_KEY\<close> set to a non-empty value from which
  \<open>DexClient\<close> can be constructed), \<open>call_tool\<close> returns exactly one text content and
  raises nothing: the text of the unknown tool, the serialized result, or, for every
  exception raised while the arguments are taken, in the client call or in the
  serialization, \<open>Error: \<close> followed by the exception's message.
\<close>

theorem call_tool_one_text_when_client_available:
  assumes "global_client s \<noteq> None \<or>
    (\<exists>k c. environ rt ''DEX_API_KEY'' = Some k \<and> k \<noteq> [] \<and> DexClient_init rt k = Inr c)"
  shows "\<exists>c s0. get_client rt s = Inr (c, s0) \<and>
     call_tool rt nm arguments s =
       (case tool_result rt c nm arguments s0 of
          None \<Rightarrow> (Inr [\<lparr>type = ''text'', text = ''Unknown tool: '' @ nm\<rparr>], s0)
        | Some (Inl e, s') \<Rightarrow> (Inr [\<lparr>type = ''text'', text = ''Error: '' @ str_exn e\<rparr>], s')
        | Some (Inr result, s') \<Rightarrow>
            (case json_dumps rt result of
               Inl e \<Rightarrow> (Inr [\<lparr>type = ''text'', text = ''Error: '' @ str_exn e\<rparr>], s')
             | Inr dumped \<Rightarrow> (Inr [\<lparr>type = ''text'', text = dumped\<rparr>], s'))) \<and>
     (\<exists>t s'. call_tool rt nm arguments s = (Inr [\<lparr>type = ''text'', text = t\<rparr>], s'))"
proof -
  from get_client_available [OF assms] obtain c s0 where g: "get_client rt s = Inr (c, s0)"
    by blast
  have eq: "call_tool rt nm arguments s =
       (case tool_result rt c nm arguments s0 of
          None \<Rightarrow> (Inr [\<lparr>type = ''text'', text = ''Unknown tool: '' @ nm\<rparr>], s0)
        | Some (Inl e, s') \<Rightarrow> (Inr [\<lparr>type = ''text'', text = ''Error: '' @ str_exn e\<rparr>], s')
        | Some (Inr result, s') \<Rightarrow>
            (case json_dumps rt result of
               Inl e \<Rightarrow> (Inr [\<lparr>type = ''text'', text = ''Error: '' @ str_exn e\<rparr>], s')
             | Inr dumped \<Rightarrow> (Inr [\<lparr>type = ''text'', text = dumped\<rparr>], s')))"
    by (simp add: call_tool_def g call_tool_try_def split: option.splits sum.splits prod.splits)
  have one: "\<exists>t s'. call_tool rt nm arguments s = (Inr [\<lparr>type = ''text'', text = t\<rparr>], s')"
    unfolding eq by (auto split: option.splits sum.splits prod.splits)
  from g eq one show ?thesis by blast
qed

theorem call_tool_one_text_when_client_available_witness:
  "global_client ready_state \<noteq> None \<and>
   call_tool demo_runtime ''dex_get_contact'' [] ready_state =
     (Inr [\<lparr>type = ''text'', text = ''Error: '' @ squote ''contact_id''\<rparr>], ready_state) \<and>
   call_tool demo_runtime ''dex_get_contact'' [(''contact_id'', PStr ''c1'')] ready_state =
     (Inr [\<lparr>type = ''text'', text = ''{...}''\<rparr>],
      ready_state\<lparr>sent := [\<lparr>method = ''GET'', path = ''/contacts/c1'', params = None,
                               json = None\<rparr>]\<rparr>) \<and>
   environ (with_key ''secret'' demo_runtime) ''DEX_API_KEY'' = Some ''secret'' \<and>
   DexClient_init (with_key ''secret'' demo_runtime) ''secret'' = Inr demo_client \<and>
   call_tool (with_key ''secret'' demo_runtime) ''dex_get_contact'' [] fresh_state =
     (Inr [\<lparr>type = ''text'', text = ''Error: '' @ squote ''contact_id''\<rparr>], ready_state)"
proof -
  have h: "global_client ready_state \<noteq> None \<or>
      (\<exists>k c. environ demo_runtime ''DEX_API_KEY'' = Some k \<and> k \<noteq> [] \<and>
             DexClient_init demo_runtime k = Inr c)"
    by (simp add: ready_state_def)
  have g: "get_client demo_runtime ready_state = Inr (demo_client, ready_state)"
    by (simp add: get_client_def ready_state_def)
  have r1: "tool_result demo_runtime demo_client ''dex_get_contact'' [] ready_state =
      Some (Inl (KeyError ''contact_id''), ready_state)"
    by (simp add: tool_result_def item_def dict_getitem_def)
  have r2: "tool_result demo_runtime demo_client ''dex_get_contact''
        [(''contact_id'', PStr ''c1'')] ready_state =
      Some (Inr (PDict [(''ok'', PBool True)]),
        ready_state\<lparr>sent := [\<lparr>method = ''GET'', path = ''/contacts/c1'', params = None,
                                 json = None\<rparr>]\<rparr>)"
    by (simp add: tool_result_def item_def dict_getitem_def get_contact_def
        private_request_def fstr_def demo_runtime_def ready_state_def)
  have d: "json_dumps demo_runtime (PDict [(''ok'', PBool True)]) = Inr ''{...}''"
    by (simp add: demo_runtime_def)
  have e: "environ (with_key ''secret'' demo_runtime) ''DEX_API_KEY'' = Some ''secret''"
    by (simp add: with_key_def)
  have i: "DexClient_init (with_key ''secret'' demo_runtime) ''secret'' = Inr demo_client"
    by (simp add: DexClient_init_def with_key_def demo_runtime_def demo_client_def ascii_def)
  have h': "global_client fresh_state \<noteq> None \<or>
      (\<exists>k c. environ (with_key ''secret'' demo_runtime) ''DEX_API_KEY'' = Some k \<and> k \<noteq> [] \<and>
             DexClient_init (with_key ''secret'' demo_runtime) k = Inr c)"
    using e i by auto
  have g': "get_client (with_key ''secret'' demo_runtime) fresh_state =
      Inr (demo_client, ready_state)"
    by (simp add: get_client_def fresh_state_def ready_state_def e i)
  have r3: "tool_result (with_key ''secret'' demo_runtime) demo_client ''dex_get_contact'' []
        ready_state = Some (Inl (KeyError ''contact_id''), ready_state)"
    by (simp add: tool_result_def item_def dict_getitem_def)
  have c12: "call_tool demo_runtime ''dex_get_contact'' [] ready_state =
     (Inr [\<lparr>type = ''text'', text = ''Error: '' @ squote ''contact_id''\<rparr>], ready_state) \<and>
   call_tool demo_runtime ''dex_get_contact'' [(''contact_id'', PStr ''c1'')] ready_state =
     (Inr [\<lparr>type = ''text'', text = ''{...}''\<rparr>],
      ready_state\<lparr>sent := [\<lparr>method = ''GET'', path = ''/contacts/c1'', params = None,
                               json = None\<rparr>]\<rparr>)"
    using call_tool_one_text_when_client_available [OF h, of "''dex_get_contact''" "[]"]
      call_tool_one_text_when_client_available [OF h, of "''dex_get_contact''"
        "[(''contact_id'', PStr ''c1'')]"]
    by (simp add: g r1 r2 d)
  have c3: "call_tool (with_key ''secret'' demo_runtime) ''dex_get_contact'' [] fresh_state =
     (Inr [\<lparr>type = ''text'', text = ''Error: '' @ squote ''contact_id''\<rparr>], ready_state)"
    using call_tool_one_text_when_client_available [OF h', of "''dex_get_contact''" "[]"]
    by (simp add: g' r3)
  from c12 c3 e i show ?thesis by (simp add: ready_state_def)
qed

subsection \<open>Unknown tools\<close>

text \<open>
  C4 says that dispatching a name outside the catalog gives the text of the unknown tool
  and never raises. The same \<open>get_client()\<close> before the \<open>try\<close> raises here too, before
  the name is looked at: with no key, and with a key the constructor refuses.
\<close>

theorem unknown_tool_raises_without_key:
  "''dex_no_such_tool'' \<notin> set (map name list_tools) \<and>
   call_tool demo_runtime ''dex_no_such_tool'' [] fresh_state =
     (Inl (ValueError missing_key_message), fresh_state) \<and>
   call_tool (with_key (''cl'' @ [CHR 0xE9]) demo_runtime) ''dex_no_such_tool'' [] fresh_state =
     (Inl (LibraryError ''ordinal not in range(128)''), fresh_state)"
  by (simp add: catalog_names call_tool_def get_client_def DexClient_init_def with_key_def
      ascii_def demo_runtime_def fresh_state_def)

text \<open>
  C4, as the code has it: for every name not in the catalog and every argument mapping,
  when the client is available (made before, or \<open>DEX_API_KEY\<close> set to a non-empty value
  from which \<open>DexClient\<close> can be constructed), \<open>call_tool\<close> returns the one text
  \<open>Unknown tool: \<close> followed by the name, which contains \<open>Unknown tool\<close> and the name;
  it raises nothing and sends no request.
\<close>

theorem unknown_tool_text:
  assumes "nm \<notin> set (map name list_tools)"
    and "global_client s \<noteq> None \<or>
      (\<exists>k c. environ rt ''DEX_API_KEY'' = Some k \<and> k \<noteq> [] \<and> DexClient_init rt k = Inr c)"
  shows "\<exists>s'. call_tool rt nm arguments s =
       (Inr [\<lparr>type = ''text'', text = ''Unknown tool: '' @ nm\<rparr>], s') \<and>
     sent s' = sent s \<and> world s' = world s \<and>
     sublist ''Unknown tool'' (''Unknown tool: '' @ nm) \<and>
     sublist nm (''Unknown tool: '' @ nm)"
proof -
  from get_client_available [OF assms(2)] obtain c s0 where g: "get_client rt s = Inr (c, s0)"
    by blast
  have st: "sent s0 = sent s \<and> world s0 = world s"
    using g by (rule get_client_keeps_sent)
  have "call_tool rt nm arguments s =
      (Inr [\<lparr>type = ''text'', text = ''Unknown tool: '' @ nm\<rparr>], s0)"
    by (simp add: call_tool_def g call_tool_try_def tool_result_unknown [OF assms(1)])
  moreover have "sublist ''Unknown tool'' (''Unknown tool: '' @ nm)"
    using sublist_appendI [of "''Unknown tool''" "[]" "'': '' @ nm"] by simp
  moreover have "sublist nm (''Unknown tool: '' @ nm)"
    using sublist_appendI [of nm "''Unknown tool: ''" "[]"] by simp
  ultimately show ?thesis using st by blast
qed

theorem unknown_tool_text_witness:
  "''dex_no_such_tool'' \<notin> set (map name list_tools) \<and>
   global_client ready_state \<noteq> None \<and>
   call_tool demo_runtime ''dex_no_such_tool'' [(''contact_id'', PStr ''c1'')] ready_state =
     (Inr [\<lparr>type = ''text'', text = ''Unknown tool: dex_no_such_tool''\<rparr>], ready_state)"
proof -
  have h1: "''dex_no_such_tool'' \<notin> set (map name list_tools)"
    by (simp add: catalog_names)
  have h2: "global_client ready_state \<noteq> None \<or>
      (\<exists>k c. environ demo_runtime ''DEX_API_KEY'' = Some k \<and> k \<noteq> [] \<and>
             DexClient_init demo_runtime k = Inr c)"
    by (simp add: ready_state_def)
  from unknown_tool_text [OF h1 h2, of "[(''contact_id'', PStr ''c1'')]"]
  obtain s' where c: "call_tool demo_runtime ''dex_no_such_tool''
        [(''contact_id'', PStr ''c1'')] ready_state =
      (Inr [\<lparr>type = ''text'', text = ''Unknown tool: '' @ ''dex_no_such_tool''\<rparr>], s')"
    by blast
  have "snd (call_tool demo_runtime ''dex_no_such_tool''
        [(''contact_id'', PStr ''c1'')] ready_state) = ready_state"
    by (simp add: call_tool_def get_client_def ready_state_def call_tool_try_def
        tool_result_def)
  with c have "s' = ready_state" by simp
  with c h1 show ?thesis by (simp add: ready_state_def)
qed

subsection \<open>Creating a reminder through the tool\<close>

lemma map_of_filter_other:
  "k' \<noteq> k \<Longrightarrow> map_of (filter (\<lambda>kv. fst kv \<noteq> k) d) k' = map_of d k'"
  by (induction d) auto

lemma call_tool_sent:
  "sent (snd (call_tool rt nm arguments s)) =
     (case get_client rt s of
        Inl e \<Rightarrow> sent s
      | Inr (c, s0) \<Rightarrow>
          (case tool_result rt c nm arguments s0 of
             None \<Rightarrow> sent s
           | Some (r, s') \<Rightarrow> sent s'))"
  by (auto simp add: call_tool_def call_tool_try_def get_client_keeps_sent
      split: sum.splits option.splits prod.splits)

lemma create_reminder_sent_any:
  "sent (snd (create_reminder rt c title due cids txt is_complete s)) = sent s \<or>
   (\<exists>more. sent (snd (create_reminder rt c title due cids txt is_complete s)) =
      sent s @
      [\<lparr>method = ''POST'', path = ''/reminders'', params = None,
        json = Some (PDict [(''reminder'',
          PDict ([(''title'', title),
                  (''text'', arg_or PNone txt),
                  (''is_complete'', arg_or (PBool False) is_complete),
                  (''due_at_date'', due)] @ more))])\<rparr>])"
  by (auto simp add: create_reminder_def sent_private_request Let_def split: sum.splits)

lemma create_reminder_tool_sent:
  "sent (snd (item arguments ''title'' (\<lambda>title.
      item arguments ''due_date'' (\<lambda>due.
        create_reminder rt c title due cids txt None)) s)) = sent s \<or>
   (\<exists>title due more.
      sent (snd (item arguments ''title'' (\<lambda>title.
        item arguments ''due_date'' (\<lambda>due.
          create_reminder rt c title due cids txt None)) s)) =
      sent s @
      [\<lparr>method = ''POST'', path = ''/reminders'', params = None,
        json = Some (PDict [(''reminder'',
          PDict ([(''title'', title),
                  (''text'', arg_or PNone txt),
                  (''is_complete'', PBool False),
                  (''due_at_date'', due)] @ more))])\<rparr>])"
proof (cases "dict_getitem arguments ''title''")
  case (Inl e)
  then show ?thesis by (simp add: item_def)
next
  case title: (Inr title)
  show ?thesis
  proof (cases "dict_getitem arguments ''due_date''")
    case (Inl e)
    with title show ?thesis by (simp add: item_def)
  next
    case (Inr due)
    with title create_reminder_sent_any [of rt c title due cids "txt" None s]
    show ?thesis by (auto simp add: item_def arg_or_def)
  qed
qed

lemma dict_get_filter_other:
  "k' \<noteq> k \<Longrightarrow> dict_get (filter (\<lambda>kv. fst kv \<noteq> k) d) k' dflt = dict_get d k' dflt"
  by (simp add: dict_get_def map_of_filter_other)

lemma item_filter_other:
  "k' \<noteq> k \<Longrightarrow> item (filter (\<lambda>kv. fst kv \<noteq> k) d) k' f = item d k' f"
  by (rule ext) (simp add: item_def dict_getitem_def map_of_filter_other)

lemma tool_result_create_reminder:
  "tool_result rt c ''dex_create_reminder'' arguments s =
     Some (item arguments ''title'' (\<lambda>title.
           item arguments ''due_date'' (\<lambda>due.
             create_reminder rt c title due
               (Some (dict_get arguments ''contact_ids'' PNone))
               (Some (dict_get arguments ''text'' PNone))
               None)) s)"
  by (simp add: tool_result_def)

text \<open>
  C10. The branch of \<open>dex_create_reminder\<close> calls \<open>create_reminder\<close> without an
  \<open>is_complete\<close> argument, whatever the arguments hold: every request the call sends
  has \<open>is_complete = false\<close> in its \<open>reminder\<close> object, and the call gives the same
  result and state with the \<open>is_complete\<close> entry taken out of the arguments.
\<close>

theorem create_reminder_tool_drops_is_complete:
  "tool_result rt c ''dex_create_reminder'' arguments s =
     Some (item arguments ''title'' (\<lambda>title.
           item arguments ''due_date'' (\<lambda>due.
             create_reminder rt c title due
               (Some (dict_get arguments ''contact_ids'' PNone))
               (Some (dict_get arguments ''text'' PNone))
               None)) s) \<and>
   (\<forall>rq \<in> set (requests_of (call_tool rt ''dex_create_reminder'' arguments) s).
      \<exists>kvs. json rq = Some (PDict [(''reminder'', PDict kvs)]) \<and>
            map_of kvs ''is_complete'' = Some (PBool False)) \<and>
   call_tool rt ''dex_create_reminder'' (filter (\<lambda>kv. fst kv \<noteq> ''is_complete'') arguments) s =
     call_tool rt ''dex_create_reminder'' arguments s"
proof (intro conjI)
  show "tool_result rt c ''dex_create_reminder'' arguments s =
     Some (item arguments ''title'' (\<lambda>title.
           item arguments ''due_date'' (\<lambda>due.
             create_reminder rt c title due
               (Some (dict_get arguments ''contact_ids'' PNone))
               (Some (dict_get arguments ''text'' PNone))
               None)) s)"
    by (rule tool_result_create_reminder)
  show "\<forall>rq \<in> set (requests_of (call_tool rt ''dex_create_reminder'' arguments) s).
      \<exists>kvs. json rq = Some (PDict [(''reminder'', PDict kvs)]) \<and>
            map_of kvs ''is_complete'' = Some (PBool False)"
  proof (cases "get_client rt s")
    case (Inl e)
    then show ?thesis by (simp add: requests_of_def call_tool_sent)
  next
    case (Inr p)
    obtain c0 s0 where p: "p = (c0, s0)" by (cases p)
    have s0: "sent s0 = sent s" using Inr p get_client_keeps_sent by blast
    from create_reminder_tool_sent [of arguments rt c0
        "Some (dict_get arguments ''contact_ids'' PNone)"
        "Some (dict_get arguments ''text'' PNone)" s0]
    show ?thesis
      by (auto simp add: requests_of_def call_tool_sent Inr p tool_result_create_reminder s0
          split: prod.splits)
  qed
  have tr: "tool_result rt c0 ''dex_create_reminder''
          (filter (\<lambda>kv. fst kv \<noteq> ''is_complete'') arguments) s0 =
        tool_result rt c0 ''dex_create_reminder'' arguments s0" for c0 s0
    by (simp add: tool_result_create_reminder item_filter_other dict_get_filter_other)
  have ct: "call_tool_try rt c0 ''dex_create_reminder''
          (filter (\<lambda>kv. fst kv \<noteq> ''is_complete'') arguments) s0 =
        call_tool_try rt c0 ''dex_create_reminder'' arguments s0" for c0 s0
    by (simp add: call_tool_try_def tr)
  show "call_tool rt ''dex_create_reminder''
        (filter (\<lambda>kv. fst kv \<noteq> ''is_complete'') arguments) s =
      call_tool rt ''dex_create_reminder'' arguments s"
  proof (cases "get_client rt s")
    case (Inl e)
    then show ?thesis by (simp add: call_tool_def)
  next
    case (Inr p)
    then show ?thesis by (cases p) (simp add: call_tool_def ct)
  qed
qed

theorem create_reminder_tool_drops_is_complete_witness:
  "requests_of
     (call_tool demo_runtime ''dex_create_reminder''
        [(''title'', PStr ''Follow up''), (''due_date'', PStr ''2024-06-01''),
         (''is_complete'', PBool True)]) ready_state =
   [\<lparr>method = ''POST'', path = ''/reminders'', params = None,
     json = Some (PDict [(''reminder'',
       PDict [(''title'', PStr ''Follow up''),
              (''text'', PNone),
              (''is_complete'', PBool False),
              (''due_at_date'', PStr ''2024-06-01'')])])\<rparr>] \<and>
   call_tool demo_runtime ''dex_create_reminder''
     [(''title'', PStr ''Follow up''), (''due_date'', PStr ''2024-06-01'')] ready_state =
   call_tool demo_runtime ''dex_create_reminder''
     [(''title'', PStr ''Follow up''), (''due_date'', PStr ''2024-06-01''),
      (''is_complete'', PBool True)] ready_state"
proof -
  have g: "get_client demo_runtime ready_state = Inr (demo_client, ready_state)"
    by (simp add: get_client_def ready_state_def)
  have t: "tool_result demo_runtime demo_client ''dex_create_reminder''
        [(''title'', PStr ''Follow up''), (''due_date'', PStr ''2024-06-01''),
         (''is_complete'', PBool True)] ready_state =
      Some (Inr (PDict [(''ok'', PBool True)]),
        ready_state\<lparr>sent :=
          [\<lparr>method = ''POST'', path = ''/reminders'', params = None,
            json = Some (PDict [(''reminder'',
              PDict [(''title'', PStr ''Follow up''),
                     (''text'', PNone),
                     (''is_complete'', PBool False),
                     (''due_at_date'', PStr ''2024-06-01'')])])\<rparr>]\<rparr>)"
    by (simp add: tool_result_create_reminder item_def dict_getitem_def dict_get_def
        create_reminder_def private_request_def arg_or_def demo_runtime_def ready_state_def)
  have r: "requests_of
     (call_tool demo_runtime ''dex_create_reminder''
        [(''title'', PStr ''Follow up''), (''due_date'', PStr ''2024-06-01''),
         (''is_complete'', PBool True)]) ready_state =
   [\<lparr>method = ''POST'', path = ''/reminders'', params = None,
     json = Some (PDict [(''reminder'',
       PDict [(''title'', PStr ''Follow up''),
              (''text'', PNone),
              (''is_complete'', PBool False),
              (''due_at_date'', PStr ''2024-06-01'')])])\<rparr>]"
    by (simp add: requests_of_def call_tool_sent g t) (simp add: ready_state_def)
  show ?thesis
    using create_reminder_tool_drops_is_complete [of demo_runtime demo_client
        "[(''title'', PStr ''Follow up''), (''due_date'', PStr ''2024-06-01''),
          (''is_complete'', PBool True)]" ready_state]
    by (simp add: r)
qed

section \<open>The catalog and the client's signatures\<close>

text \<open>
  The table \<open>tool_methods\<close> names the tools the chain of \<open>call_tool\<close> knows: the chain
  ends in its \<open>else\<close> exactly for the names outside the table.
\<close>

lemma tool_result_none_iff:
  "tool_result rt c nm arguments s = None \<longleftrightarrow> map_of tool_methods nm = None"
  by (simp add: tool_result_def tool_methods_def)

lemmas schema_defs = agrees_def mirrors_client_def mirrors_def signature_of_def
  tool_methods_def DexClient_methods_def properties_def required_def required_names_def
  property_agrees_def keys_def

lemma catalog_agrees:
  "agrees dex_list_contacts_tool" "agrees dex_get_contact_tool"
  "agrees dex_search_contacts_tool" "agrees dex_create_contact_tool"
  "agrees dex_update_contact_tool" "agrees dex_delete_contact_tool"
  "agrees dex_list_notes_tool" "agrees dex_get_notes_for_contact_tool"
  "agrees dex_create_note_tool" "agrees dex_update_note_tool" "agrees dex_delete_note_tool"
  "agrees dex_list_reminders_tool" "agrees dex_create_reminder_tool"
  "agrees dex_update_reminder_tool" "agrees dex_complete_reminder_tool"
  "agrees dex_delete_reminder_tool"
  by (simp_all add: schema_defs
      dex_list_contacts_tool_def dex_get_contact_tool_def dex_search_contacts_tool_def
      dex_create_contact_tool_def dex_update_contact_tool_def dex_delete_contact_tool_def
      dex_list_notes_tool_def dex_get_notes_for_contact_tool_def dex_create_note_tool_def
      dex_update_note_tool_def dex_delete_note_tool_def dex_list_reminders_tool_def
      dex_create_reminder_tool_def dex_update_reminder_tool_def dex_complete_reminder_tool_def
      dex_delete_reminder_tool_def)

lemma catalog_mirrors:
  "mirrors_client dex_list_contacts_tool" "mirrors_client dex_get_contact_tool"
  "mirrors_client dex_search_contacts_tool" "mirrors_client dex_create_contact_tool"
  "mirrors_client dex_delete_contact_tool" "mirrors_client dex_list_notes_tool"
  "mirrors_client dex_get_notes_for_contact_tool" "mirrors_client dex_create_note_tool"
  "mirrors_client dex_update_note_tool" "mirrors_client dex_delete_note_tool"
  "mirrors_client dex_list_reminders_tool" "mirrors_client dex_update_reminder_tool"
  "mirrors_client dex_complete_reminder_tool" "mirrors_client dex_delete_reminder_tool"
  by (simp_all add: schema_defs
      dex_list_contacts_tool_def dex_get_contact_tool_def dex_search_contacts_tool_def
      dex_create_contact_tool_def dex_delete_contact_tool_def dex_list_notes_tool_def
      dex_get_notes_for_contact_tool_def dex_create_note_tool_def dex_update_note_tool_def
      dex_delete_note_tool_def dex_list_reminders_tool_def dex_update_reminder_tool_def
      dex_complete_reminder_tool_def dex_delete_reminder_tool_def)

lemma catalog_mirrors_not:
  "\<not> mirrors_client dex_update_contact_tool" "\<not> mirrors_client dex_create_reminder_tool"
  by (simp_all add: schema_defs dex_update_contact_tool_def dex_create_reminder_tool_def)

text \<open>
  C8 says that every entry's schema mirrors the parameters of its client method. The
  schema of \<open>dex_create_reminder\<close> does not: \<open>create_reminder\<close> takes
  \<open>is_complete: bool = False\<close>, and the schema has no such property.
\<close>

theorem create_reminder_schema_lacks_is_complete:
  "dex_create_reminder_tool \<in> set list_tools \<and>
   signature_of dex_create_reminder_tool =
     Some \<lparr>parameters =
             [(''title'', A_str, None),
              (''due_date'', A_str, None),
              (''contact_ids'', A_list_str_or_None, Some PNone),
              (''text'', A_str_or_None, Some PNone),
              (''is_complete'', A_bool, Some (PBool False))],
           var_keyword = None\<rparr> \<and>
   keys (properties dex_create_reminder_tool) = [''title'', ''due_date'', ''contact_ids'', ''text''] \<and>
   \<not> mirrors_client dex_create_reminder_tool"
  by (simp add: list_tools_def catalog_mirrors_not)
    (simp add: schema_defs dex_create_reminder_tool_def)

text \<open>
  C8, as the code has it. The catalog has exactly 16 entries with distinct names, 6 for
  contacts, 5 for notes and 5 for reminders (\<open>dex_complete_reminder\<close> among them), one
  for each of the 16 operations of the client. In every entry the required markers are
  exactly on the method's parameters without a default, and every listed property that
  names a parameter has that parameter's type and declares its default when the default
  is not \<open>None\<close>. The property names are the method's parameter names in every entry but
  two: \<open>dex_create_reminder\<close> leaves \<open>is_complete\<close> out, and \<open>dex_update_contact\<close>
  lists \<open>contact_id\<close> and eight scalar fields where \<open>update_contact\<close> takes
  \<open>contact_id\<close> and \<open>**fields\<close>.
\<close>

theorem catalog_shape:
  "length list_tools = 16 \<and>
   map name list_tools =
     [''dex_list_contacts'', ''dex_get_contact'', ''dex_search_contacts'',
      ''dex_create_contact'', ''dex_update_contact'', ''dex_delete_contact''] @
     [''dex_list_notes'', ''dex_get_notes_for_contact'', ''dex_create_note'',
      ''dex_update_note'', ''dex_delete_note''] @
     [''dex_list_reminders'', ''dex_create_reminder'', ''dex_update_reminder'',
      ''dex_complete_reminder'', ''dex_delete_reminder''] \<and>
   distinct (map name list_tools) \<and>
   set (map (\<lambda>t. map_of tool_methods (name t)) list_tools) =
     set (map (\<lambda>m. Some (fst m)) DexClient_methods) \<and>
   length DexClient_methods = 16 \<and>
   distinct (map fst DexClient_methods) \<and>
   list_all agrees list_tools \<and>
   map name (filter (\<lambda>t. \<not> mirrors_client t) list_tools) =
     [''dex_update_contact'', ''dex_create_reminder''] \<and>
   keys (properties dex_create_reminder_tool) =
     [''title'', ''due_date'', ''contact_ids'', ''text''] \<and>
   map_option (\<lambda>sg. map fst (parameters sg)) (signature_of dex_create_reminder_tool) =
     Some [''title'', ''due_date'', ''contact_ids'', ''text'', ''is_complete''] \<and>
   keys (properties dex_update_contact_tool) =
     [''contact_id'', ''first_name'', ''last_name'', ''job_title'', ''description'',
      ''linkedin'', ''twitter'', ''instagram'', ''website''] \<and>
   map_option (\<lambda>sg. (map fst (parameters sg), var_keyword sg))
       (signature_of dex_update_contact_tool) =
     Some ([''contact_id''], Some ''fields'')"
proof (intro conjI)
  show "length list_tools = 16" by (simp add: list_tools_def)
  show "map name list_tools =
     [''dex_list_contacts'', ''dex_get_contact'', ''dex_search_contacts'',
      ''dex_create_contact'', ''dex_update_contact'', ''dex_delete_contact''] @
     [''dex_list_notes'', ''dex_get_notes_for_contact'', ''dex_create_note'',
      ''dex_update_note'', ''dex_delete_note''] @
     [''dex_list_reminders'', ''dex_create_reminder'', ''dex_update_reminder'',
      ''dex_complete_reminder'', ''dex_delete_reminder'']"
    by (simp add: catalog_names)
  show "distinct (map name list_tools)" by (simp add: catalog_names)
  show "set (map (\<lambda>t. map_of tool_methods (name t)) list_tools) =
     set (map (\<lambda>m. Some (fst m)) DexClient_methods)"
  proof -
    have "map (\<lambda>t. map_of tool_methods (name t)) list_tools =
        map (map_of tool_methods) (map name list_tools)"
      by simp
    also have "\<dots> = map Some (map snd tool_methods)"
      unfolding catalog_names by (simp add: tool_methods_def)
    finally show ?thesis by (auto simp add: tool_methods_def DexClient_methods_def)
  qed
  show "length DexClient_methods = 16" by (simp add: DexClient_methods_def)
  show "distinct (map fst DexClient_methods)" by (simp add: DexClient_methods_def)
  show "list_all agrees list_tools" by (simp add: list_tools_def catalog_agrees)
  show "map name (filter (\<lambda>t. \<not> mirrors_client t) list_tools) =
     [''dex_update_contact'', ''dex_create_reminder'']"
    by (simp add: list_tools_def catalog_mirrors catalog_mirrors_not)
      (simp add: dex_update_contact_tool_def dex_create_reminder_tool_def)
  show "keys (properties dex_create_reminder_tool) =
     [''title'', ''due_date'', ''contact_ids'', ''text'']"
    by (simp add: schema_defs dex_create_reminder_tool_def)
  show "map_option (\<lambda>sg. map fst (parameters sg)) (signature_of dex_create_reminder_tool) =
     Some [''title'', ''due_date'', ''contact_ids'', ''text'', ''is_complete'']"
    by (simp add: schema_defs dex_create_reminder_tool_def)
  show "keys (properties dex_update_contact_tool) =
     [''contact_id'', ''first_name'', ''last_name'', ''job_title'', ''description'',
      ''linkedin'', ''twitter'', ''instagram'', ''website'']"
    by (simp add: schema_defs dex_update_contact_tool_def)
  show "map_option (\<lambda>sg. (map fst (parameters sg), var_keyword sg))
       (signature_of dex_update_contact_tool) =
     Some ([''contact_id''], Some ''fields'')"
    by (simp add: schema_defs dex_update_contact_tool_def)
qed

end
